theory Spec2Isabelle
  imports Main
begin

section \<open>The rule \<open>color-named\<close> (src/lib/rules/color-named/index.js)\<close>

text \<open>
  The rule walks the declarations of a stylesheet, parses each declaration value into a
  tree of nodes and judges every node on its own: under the primary option \<open>never\<close> a
  word that is a named color is reported, under \<open>always-where-possible\<close> a color function
  or a hex literal that has a named equivalent is reported.

  JavaScript strings are modelled as \<open>string\<close>: a character is a code point from U+0000
  to U+00FF, the ASCII and Latin-1 range. On this range the case mapping and the
  whitespace class below are those of JavaScript. A string with a code point above
  U+00FF has no counterpart in the model.
\<close>

subsection \<open>Strings\<close>

text \<open>
  The lowercase counterpart of a character: the letters \<open>A\<close> to \<open>Z\<close> (65 to 90) and the
  Latin-1 capitals U+00C0 to U+00DE (192 to 222) without the multiplication sign U+00D7
  (215) are moved up by 32; every other character of the range is its own counterpart.
\<close>

definition lowerChar :: "char \<Rightarrow> char" where
  "lowerChar c =
     (let n = (of_char c :: nat) in
      if (65 \<le> n \<and> n \<le> 90) \<or> (192 \<le> n \<and> n \<le> 222 \<and> n \<noteq> 215)
      then char_of (n + 32) else c)"

text \<open>\<^verbatim>\<open>s.toLowerCase()\<close>\<close>

definition toLowerCase :: "string \<Rightarrow> string" where
  "toLowerCase s = map lowerChar s"

text \<open>The class \<^verbatim>\<open>\s\<close> of a regular expression, on the range of the model: tab, line
  feed, vertical tab, form feed, carriage return (9 to 13), space (32) and the no-break
  space U+00A0 (160).\<close>

definition isWhitespace :: "char \<Rightarrow> bool" where
  "isWhitespace c =
     (let n = (of_char c :: nat) in (9 \<le> n \<and> n \<le> 13) \<or> n = 32 \<or> n = 160)"

text \<open>\<^verbatim>\<open>s.replace(/\s+/g, '')\<close>\<close>

definition removeWhitespace :: "string \<Rightarrow> string" where
  "removeWhitespace s = filter (\<lambda>c. \<not> isWhitespace c) s"

subsection \<open>Data\<close>

text \<open>
  A node of the value tree, as postcss-value-parser produces it: \<open>type\<close>, \<open>value\<close>,
  \<open>sourceIndex\<close>, the \<open>before\<close> and \<open>after\<close> whitespace of a function or a divider, and
  the child \<open>nodes\<close> of a function. The type is the string the parser writes
  (\<open>word\<close>, \<open>function\<close>, \<open>space\<close>, \<open>div\<close>, \<open>string\<close>, \<open>comment\<close>, ...).
\<close>

datatype node =
  Node (ntype: string) (nvalue: string) (sourceIndex: nat)
       (before: string) (after: string) (nodes: "node list")

text \<open>A declaration: \<open>decl.prop\<close> and \<open>decl.value\<close>.\<close>

record decl =
  dprop :: string
  dvalue :: string

text \<open>What \<open>report\<close> receives from \<open>complain\<close>: the message, the declaration and the
  index. (\<open>result\<close> and \<open>ruleName\<close> are the same in every call.)\<close>

record violation =
  message :: string
  vnode :: decl
  index :: nat

text \<open>An entry of \<open>namedColorData\<close>: \<^verbatim>\<open>{ hex: string[], func: string[] }\<close>.\<close>

record colorData =
  hex :: "string list"
  func :: "string list"

text \<open>
  The modules the rule requires are not part of the file; they are the parameters of the
  model. \<open>'o\<close> is the type of the secondary options, which the rule only hands to
  \<open>validateOptions\<close> and \<open>optionsMatches\<close>. \<open>namedColorDataHex\<close> is an object: its
  entries in the order \<open>Object.keys\<close> lists them. The argument of \<open>generateColorFuncs\<close> is
  \<open>hex[0]\<close>, which is \<open>undefined\<close> (\<open>None\<close>) for an empty array.
\<close>

record 'o env =
  validateOptions :: "string \<Rightarrow> 'o \<Rightarrow> bool"
  optionsMatches :: "'o \<Rightarrow> string \<Rightarrow> string \<Rightarrow> bool"
  namedColorDataHex :: "(string \<times> string list) list"
  generateColorFuncs :: "string option \<Rightarrow> string list"
  colorFunctionNames :: "string set"
  acceptCustomIdents :: "string set"
  isStandardSyntaxFunction :: "node \<Rightarrow> bool"
  isStandardSyntaxValue :: "string \<Rightarrow> bool"
  declarationValueIndex :: "decl \<Rightarrow> nat"
  valueParser :: "string \<Rightarrow> node list"
  stringify :: "node \<Rightarrow> string"
  ruleMessages :: "string \<Rightarrow> string \<Rightarrow> string"

subsection \<open>Messages\<close>

definition ruleName :: string where
  "ruleName = ''color-named''"

definition dquote :: string where
  "dquote = [CHR 0x22]"

text \<open>\<^verbatim>\<open>expected: (named, original) => `Expected "${original}" to be "${named}"`\<close>,
  passed through \<open>ruleMessages\<close>.\<close>

definition messages_expected :: "'o env \<Rightarrow> string \<Rightarrow> string \<Rightarrow> string" where
  "messages_expected E named original =
     ruleMessages E ruleName
       (''Expected '' @ dquote @ original @ dquote @ '' to be '' @ dquote @ named @ dquote)"

text \<open>\<^verbatim>\<open>rejected: (named) => `Unexpected named color "${named}"`\<close>\<close>

definition messages_rejected :: "'o env \<Rightarrow> string \<Rightarrow> string" where
  "messages_rejected E named =
     ruleMessages E ruleName (''Unexpected named color '' @ dquote @ named @ dquote)"

definition complain :: "string \<Rightarrow> decl \<Rightarrow> nat \<Rightarrow> violation" where
  "complain msg d i = \<lparr>message = msg, vnode = d, index = i\<rparr>"

subsection \<open>The index of named colors\<close>

definition NODE_TYPES :: "string set" where
  "NODE_TYPES = {''word'', ''function''}"

text \<open>\<^verbatim>\<open>Object.keys(namedColorDataHex)\<close>\<close>

definition namedColors :: "'o env \<Rightarrow> string list" where
  "namedColors E = map fst (namedColorDataHex E)"

text \<open>\<open>hex[0]\<close>\<close>

definition first :: "'a list \<Rightarrow> 'a option" where
  "first xs = (case xs of [] \<Rightarrow> None | x # _ \<Rightarrow> Some x)"

text \<open>
  The loop that fills \<open>namedColorData\<close>: one entry per name, in the order of the names,
  with the hex spellings of the catalog and the generated function spellings of the first
  one. The keys of an object are distinct, so the loop over the keys with a lookup is a
  loop over the entries.
\<close>

definition namedColorData :: "'o env \<Rightarrow> (string \<times> colorData) list" where
  "namedColorData E =
     map (\<lambda>(name, h). (name, \<lparr>hex = h, func = generateColorFuncs E (first h)\<rparr>))
       (namedColorDataHex E)"

text \<open>
  \<^verbatim>\<open>for (const namedColor of namedColors) {
    if (namedColorData[namedColor].func.includes(s)) { complain(...); return; } }\<close>
  The result is the color the loop complains about, if any.
\<close>

fun searchFunc :: "(string \<times> colorData) list \<Rightarrow> string \<Rightarrow> string option" where
  "searchFunc [] s = None"
| "searchFunc ((namedColor, d) # rest) s =
     (if s \<in> set (func d) then Some namedColor else searchFunc rest s)"

text \<open>The same loop over the \<open>hex\<close> spellings.\<close>

fun searchHex :: "(string \<times> colorData) list \<Rightarrow> string \<Rightarrow> string option" where
  "searchHex [] s = None"
| "searchHex ((namedColor, d) # rest) s =
     (if s \<in> set (hex d) then Some namedColor else searchHex rest s)"

subsection \<open>Judging one node\<close>

text \<open>
  The callback of \<open>walk\<close>. The first component is the violation reported for the node, the
  second is \<open>False\<close> exactly when the callback returns \<^verbatim>\<open>false\<close>, which tells the walker
  not to descend into the node.
\<close>

definition classify ::
  "'o env \<Rightarrow> string \<Rightarrow> 'o \<Rightarrow> decl \<Rightarrow> node \<Rightarrow> violation option \<times> bool" where
  "classify E primary secondaryOptions d n =
     (let v = nvalue n; type = ntype n; i = declarationValueIndex E d + sourceIndex n in
      if optionsMatches E secondaryOptions ''ignore'' ''inside-function'' \<and> type = ''function''
        then (None, False)
      else if \<not> isStandardSyntaxFunction E n then (None, False)
      else if \<not> isStandardSyntaxValue E v then (None, True)
      else if type \<notin> NODE_TYPES then (None, True)
      else if primary = ''never'' \<and> type = ''word'' \<and> toLowerCase v \<in> set (namedColors E)
        then (Some (complain (messages_rejected E v) d i), True)
      else if primary \<noteq> ''always-where-possible'' then (None, True)
      else if type = ''function'' \<and> toLowerCase v \<in> colorFunctionNames E then
        (let normalizedFunctionString = removeWhitespace (stringify E n) in
         case searchFunc (namedColorData E) (toLowerCase normalizedFunctionString) of
           Some namedColor \<Rightarrow>
             (Some (complain (messages_expected E namedColor normalizedFunctionString) d i), True)
         | None \<Rightarrow> (None, True))
      else
        (case searchHex (namedColorData E) (toLowerCase v) of
           Some namedColor \<Rightarrow> (Some (complain (messages_expected E namedColor v) d i), True)
         | None \<Rightarrow> (None, True)))"

subsection \<open>Walking the value tree and the declarations\<close>

text \<open>
  \<open>walk\<close> of postcss-value-parser: the callback is called on every node in order; the
  children of a function node are walked after it unless the callback returned
  \<^verbatim>\<open>false\<close> for it.
\<close>

fun walk :: "(node \<Rightarrow> violation option \<times> bool) \<Rightarrow> node list \<Rightarrow> violation list"
  and walkNode :: "(node \<Rightarrow> violation option \<times> bool) \<Rightarrow> node \<Rightarrow> violation list" where
  "walk cb [] = []"
| "walk cb (n # ns) = walkNode cb n @ walk cb ns"
| "walkNode cb (Node t v si b a ns) =
     (case cb (Node t v si b a ns) of
        (r, descend) \<Rightarrow>
          (case r of None \<Rightarrow> [] | Some x \<Rightarrow> [x]) @
          (if descend \<and> t = ''function'' then walk cb ns else []))"

text \<open>The callback of \<open>walkDecls\<close>: the violations of one declaration.\<close>

definition checkDecl :: "'o env \<Rightarrow> string \<Rightarrow> 'o \<Rightarrow> decl \<Rightarrow> violation list" where
  "checkDecl E primary secondaryOptions d =
     (if dprop d \<in> acceptCustomIdents E then []
      else if optionsMatches E secondaryOptions ''ignoreProperties'' (dprop d) then []
      else walk (classify E primary secondaryOptions d) (valueParser E (dvalue d)))"

text \<open>
  The rule on a stylesheet, given as the declarations \<open>walkDecls\<close> visits, in its order.
  The result is the list of the violations reported.
\<close>

definition rule :: "'o env \<Rightarrow> string \<Rightarrow> 'o \<Rightarrow> decl list \<Rightarrow> violation list" where
  "rule E primary secondaryOptions root =
     (if \<not> validateOptions E primary secondaryOptions then []
      else concat (map (checkDecl E primary secondaryOptions) root))"

subsection \<open>What the rule does, step by step\<close>

text \<open>
  The steps of one run of the rule that reach its collaborators or its callbacks, in the
  order of the code: the call of \<open>validateOptions\<close> (line 31), each call of
  \<open>generateColorFuncs\<close> while the index is built (line 62), each declaration the callback
  of \<open>walkDecls\<close> is called on (line 66), each value handed to the value parser (line 76),
  each node the callback of \<open>walk\<close> is called on, and each call of \<open>report\<close>.
\<close>

datatype 'o event =
    CallValidateOptions string 'o
  | CallGenerateColorFuncs "string option"
  | VisitDecl decl
  | CallValueParser string
  | VisitNode node
  | CallReport violation

text \<open>\<open>walk\<close> with its steps: the callback is called on the node, reports or not, and the
  children of a function are walked unless it returned \<^verbatim>\<open>false\<close>.\<close>

fun walkTrace :: "(node \<Rightarrow> violation option \<times> bool) \<Rightarrow> node list \<Rightarrow> 'o event list"
  and walkNodeTrace :: "(node \<Rightarrow> violation option \<times> bool) \<Rightarrow> node \<Rightarrow> 'o event list" where
  "walkTrace cb [] = []"
| "walkTrace cb (n # ns) = walkNodeTrace cb n @ walkTrace cb ns"
| "walkNodeTrace cb (Node t v si b a ns) =
     (case cb (Node t v si b a ns) of
        (r, descend) \<Rightarrow>
          VisitNode (Node t v si b a ns) #
          (case r of None \<Rightarrow> [] | Some x \<Rightarrow> [CallReport x]) @
          (if descend \<and> t = ''function'' then walkTrace cb ns else []))"

text \<open>The callback of \<open>walkDecls\<close> with its steps (lines 66-144).\<close>

definition checkDeclTrace :: "'o env \<Rightarrow> string \<Rightarrow> 'o \<Rightarrow> decl \<Rightarrow> 'o event list" where
  "checkDeclTrace E primary secondaryOptions d =
     VisitDecl d #
     (if dprop d \<in> acceptCustomIdents E then []
      else if optionsMatches E secondaryOptions ''ignoreProperties'' (dprop d) then []
      else CallValueParser (dvalue d) #
           walkTrace (classify E primary secondaryOptions d) (valueParser E (dvalue d)))"

text \<open>
  The rule with its steps (lines 30-160): the options are validated; when they are not
  valid the function returns; otherwise the index is built, one call of
  \<open>generateColorFuncs\<close> per name, and the declarations are walked.
\<close>

definition ruleTrace :: "'o env \<Rightarrow> string \<Rightarrow> 'o \<Rightarrow> decl list \<Rightarrow> 'o event list" where
  "ruleTrace E primary secondaryOptions root =
     CallValidateOptions primary secondaryOptions #
     (if \<not> validateOptions E primary secondaryOptions then []
      else map (\<lambda>(name, h). CallGenerateColorFuncs (first h)) (namedColorDataHex E) @
           concat (map (checkDeclTrace E primary secondaryOptions) root))"

text \<open>The violations reported in a sequence of steps.\<close>

fun reported :: "'o event list \<Rightarrow> violation list" where
  "reported [] = []"
| "reported (CallReport x # es) = x # reported es"
| "reported (e # es) = reported es"

subsection \<open>The catalog as the specification describes it\<close>

text \<open>The letters \<open>a\<close> to \<open>z\<close>, and the digits of a lowercase hex string.\<close>

definition isLowerLetter :: "char \<Rightarrow> bool" where
  "isLowerLetter c = (let n = (of_char c :: nat) in 97 \<le> n \<and> n \<le> 122)"

definition isLowerHexDigit :: "char \<Rightarrow> bool" where
  "isLowerHexDigit c =
     (let n = (of_char c :: nat) in (48 \<le> n \<and> n \<le> 57) \<or> (97 \<le> n \<and> n \<le> 102))"

text \<open>Modelled from the spec: the catalog module (\<open>reference/namedColorData\<close>) is not among
  the sources. The identity of a named color is a \<^emph>\<open>lowercase name string\<close>.\<close>

definition lowercaseName :: "string \<Rightarrow> bool" where
  "lowercaseName c = (c \<noteq> [] \<and> list_all isLowerLetter c)"

text \<open>Modelled from the spec: the catalog module is not among the sources. The hex forms
  of a named color are \<^emph>\<open>lowercase hex-string variants\<close>, such as \<open>#f00\<close> and \<open>#ff0000\<close>.\<close>

definition hexString :: "string \<Rightarrow> bool" where
  "hexString h =
     (case h of [] \<Rightarrow> False | x # xs \<Rightarrow> x = CHR ''#'' \<and> xs \<noteq> [] \<and> list_all isLowerHexDigit xs)"

text \<open>Modelled from the spec: the catalog module is not among the sources. The catalog is
  \<^emph>\<open>a static mapping from lowercase name to an ordered sequence of hex-string spellings
  (at least one per name)\<close>.\<close>

definition catalogWellFormed :: "(string \<times> string list) list \<Rightarrow> bool" where
  "catalogWellFormed cat =
     list_all (\<lambda>(name, hs). lowercaseName name \<and> hs \<noteq> [] \<and> list_all hexString hs) cat"

subsection \<open>An environment for the scenarios of the specification\<close>

text \<open>The secondary options of the examples: \<^verbatim>\<open>{ ignoreProperties, ignore }\<close>, or
  \<open>None\<close> when they are not given.\<close>

record options =
  ignoreProperties :: "string list"
  ignore :: "string list"

text \<open>Modelled from the spec: \<open>validateOptions\<close> is not among the sources. The primary
  option is one of \<open>never\<close> and \<open>always-where-possible\<close>; the secondary options are optional,
  and \<open>ignore\<close> may only contain \<open>inside-function\<close>.\<close>

definition exampleValidateOptions :: "string \<Rightarrow> options option \<Rightarrow> bool" where
  "exampleValidateOptions primary so =
     ((primary = ''never'' \<or> primary = ''always-where-possible'') \<and>
      (case so of None \<Rightarrow> True | Some opts \<Rightarrow> list_all (\<lambda>x. x = ''inside-function'') (ignore opts)))"

text \<open>Modelled from the spec: \<open>optionsMatches\<close> is not among the sources. A property
  \<^emph>\<open>matches a configured ignore-list\<close>; \<open>ignore\<close> \<^emph>\<open>contains\<close> \<open>inside-function\<close>. (Only
  string entries; patterns are left out.)\<close>

definition exampleOptionsMatches :: "options option \<Rightarrow> string \<Rightarrow> string \<Rightarrow> bool" where
  "exampleOptionsMatches so key input =
     (case so of
        None \<Rightarrow> False
      | Some opts \<Rightarrow>
          (if key = ''ignoreProperties'' then input \<in> set (ignoreProperties opts)
           else if key = ''ignore'' then input \<in> set (ignore opts)
           else False))"

text \<open>Modelled from the spec: the catalog module is not among the sources. Three of the
  named colors, in catalog order; \<open>gray\<close> and \<open>grey\<close> are the two names the specification
  gives for one RGB triple.\<close>

definition exampleCatalog :: "(string \<times> string list) list" where
  "exampleCatalog =
     [(''gray'', [''#808080'']), (''grey'', [''#808080'']), (''red'', [''#ff0000'', ''#f00''])]"

text \<open>Modelled from the spec: \<open>generateColorFuncs\<close> is not among the sources. The
  integer-channel and percentage-channel forms of the triples of the example catalogs;
  \<open>rgb(255,0,0)\<close> is the form the specification's scenario gives for \<open>red\<close>. A channel that
  is not a whole percentage has no percentage form.\<close>

definition exampleGenerateColorFuncs :: "string option \<Rightarrow> string list" where
  "exampleGenerateColorFuncs h =
     (if h = Some ''#ff0000'' then [''rgb(255,0,0)'', ''rgb(100%,0%,0%)'']
      else if h = Some ''#808080'' then [''rgb(128,128,128)'']
      else if h = Some ''#000000'' then [''rgb(0,0,0)'', ''rgb(0%,0%,0%)'']
      else [])"

text \<open>Modelled from the spec: the syntax classifiers are not among the sources.
  \<^emph>\<open>Non-standard syntax, e.g. preprocessor interpolations, is always skipped\<close>: a value
  that starts with \<open>$\<close> or \<open>@\<close>, a function whose name is empty or starts with \<open>#{\<close>.\<close>

definition exampleIsStandardSyntaxValue :: "string \<Rightarrow> bool" where
  "exampleIsStandardSyntaxValue v =
     (case v of [] \<Rightarrow> True | c # _ \<Rightarrow> c \<noteq> CHR ''$'' \<and> c \<noteq> CHR ''@'')"

text \<open>Modelled from the spec: \<open>isStandardSyntaxFunction\<close> is not among the sources. See
  above: a function whose name is empty or starts with \<open>#{\<close> is not standard.\<close>

definition exampleIsStandardSyntaxFunction :: "node \<Rightarrow> bool" where
  "exampleIsStandardSyntaxFunction n = (nvalue n \<noteq> [] \<and> take 2 (nvalue n) \<noteq> ''#{'')"

text \<open>Modelled from the spec: the printer of the value parser is not among the sources.
  It gives back the source text of a node: a function is its name and its arguments in
  parentheses, a divider is its sign between the whitespace around it, any other node is
  its value.\<close>

fun exampleStringify :: "node \<Rightarrow> string" where
  "exampleStringify (Node t v si b a ns) =
     (if t = ''function'' then v @ ''('' @ b @ concat (map exampleStringify ns) @ a @ '')''
      else if t = ''div'' then b @ v @ a
      else v)"

text \<open>Word and divider nodes, with no children.\<close>

definition wordNode :: "string \<Rightarrow> nat \<Rightarrow> node" where
  "wordNode v si = Node ''word'' v si [] [] []"

definition divNode :: "string \<Rightarrow> nat \<Rightarrow> string \<Rightarrow> string \<Rightarrow> node" where
  "divNode v si b a = Node ''div'' v si b a []"

text \<open>The nodes of \<open>rgb(255,0,0)\<close>, \<open>RGB(255, 0, 0)\<close> and \<open>rgb( 255 , 0 , 0 )\<close>.\<close>

definition rgbPlain :: node where
  "rgbPlain =
     Node ''function'' ''rgb'' 0 [] []
       [wordNode ''255'' 4, divNode '','' 7 [] [], wordNode ''0'' 8, divNode '','' 9 [] [],
        wordNode ''0'' 10]"

definition rgbUpper :: node where
  "rgbUpper =
     Node ''function'' ''RGB'' 0 [] []
       [wordNode ''255'' 4, divNode '','' 7 [] '' '', wordNode ''0'' 9, divNode '','' 10 [] '' '',
        wordNode ''0'' 12]"

definition rgbSpaced :: node where
  "rgbSpaced =
     Node ''function'' ''rgb'' 0 '' '' '' ''
       [wordNode ''255'' 5, divNode '','' 8 '' '' '' '', wordNode ''0'' 11,
        divNode '','' 12 '' '' '' '', wordNode ''0'' 15]"

text \<open>Modelled from the spec: the value parser is not among the sources. The trees of
  the values of the specification's scenarios.\<close>

definition exampleValueParser :: "string \<Rightarrow> node list" where
  "exampleValueParser v =
     (if v = ''red'' then [wordNode ''red'' 0]
      else if v = ''#f00'' then [wordNode ''#f00'' 0]
      else if v = ''rgb(255,0,0)'' then [rgbPlain]
      else if v = ''calc(red)'' then [Node ''function'' ''calc'' 0 [] [] [wordNode ''red'' 5]]
      else [])"

text \<open>Modelled from the spec: the reference sets, the position of a declaration value and
  the message wrapper are not among the sources. The color functions are \<^emph>\<open>the rgb
  family\<close> and its like; the offsets of the scenarios are \<^emph>\<open>within the declaration value\<close>;
  the messages of the scenarios are the bare texts.\<close>

definition exampleEnv :: "(options option) env" where
  "exampleEnv =
     \<lparr>validateOptions = exampleValidateOptions,
      optionsMatches = exampleOptionsMatches,
      namedColorDataHex = exampleCatalog,
      generateColorFuncs = exampleGenerateColorFuncs,
      colorFunctionNames = {''rgb'', ''rgba'', ''hsl'', ''hsla''},
      acceptCustomIdents = {''animation'', ''animation-name'', ''font'', ''font-family''},
      isStandardSyntaxFunction = exampleIsStandardSyntaxFunction,
      isStandardSyntaxValue = exampleIsStandardSyntaxValue,
      declarationValueIndex = (\<lambda>d. 0),
      valueParser = exampleValueParser,
      stringify = exampleStringify,
      ruleMessages = (\<lambda>name msg. msg)\<rparr>"

definition colorDecl :: "string \<Rightarrow> decl" where
  "colorDecl v = \<lparr>dprop = ''color'', dvalue = v\<rparr>"

text \<open>Modelled from the spec: the catalog module is not among the sources. The example
  catalog after \<open>black\<close>, a color that shares no form with the other three, and the
  example environment with this catalog.\<close>

definition exampleCatalogFromBlack :: "(string \<times> string list) list" where
  "exampleCatalogFromBlack = (''black'', [''#000000'', ''#000'']) # exampleCatalog"

definition exampleEnvFromBlack :: "(options option) env" where
  "exampleEnvFromBlack = exampleEnv\<lparr>namedColorDataHex := exampleCatalogFromBlack\<rparr>"

text \<open>The node of \<open>rgb(128,128,128)\<close>.\<close>

definition rgbGray :: node where
  "rgbGray =
     Node ''function'' ''rgb'' 0 [] []
       [wordNode ''128'' 4, divNode '','' 7 [] [], wordNode ''128'' 8, divNode '','' 11 [] [],
        wordNode ''128'' 12]"

section \<open>Properties\<close>

subsection \<open>Every violation comes from a call of the callback\<close>

lemma walk_from_callback:
  "x \<in> set (walk cb ns) \<Longrightarrow> \<exists>n b. cb n = (Some x, b)"
  "x \<in> set (walkNode cb n0) \<Longrightarrow> \<exists>n b. cb n = (Some x, b)"
proof (induction cb ns and cb n0 rule: walk_walkNode.induct)
  case (1 cb)
  then show ?case by simp
next
  case (2 cb n ns)
  then show ?case by auto
next
  case (3 cb t v si b a ns)
  obtain r descend where c: "cb (Node t v si b a ns) = (r, descend)"
    by (cases "cb (Node t v si b a ns)")
  from "3.prems" c consider "r = Some x"
    | "descend \<and> t = ''function''" "x \<in> set (walk cb ns)"
    by (auto split: option.splits if_splits)
  then show ?case
  proof cases
    case 1
    with c show ?thesis by blast
  next
    case 2
    with "3.IH" [OF c [symmetric]] show ?thesis by blast
  qed
qed

lemma classify_vnode:
  "classify E primary so d n = (Some x, b) \<Longrightarrow> vnode x = d"
  by (auto simp: classify_def Let_def complain_def split: if_splits option.splits)

lemma checkDecl_vnode:
  "x \<in> set (checkDecl E primary so d) \<Longrightarrow> vnode x = d"
  by (auto simp: checkDecl_def split: if_splits dest!: walk_from_callback(1) classify_vnode)

subsection \<open>The steps of a run report what the rule reports\<close>

lemma reported_append: "reported (xs @ ys) = reported xs @ reported ys"
  by (induction xs rule: reported.induct) simp_all

lemma reported_walkTrace:
  "reported (walkTrace cb ns :: 'o event list) = walk cb ns"
  "reported (walkNodeTrace cb n0 :: 'o event list) = walkNode cb n0"
proof (induction cb ns and cb n0 rule: walk_walkNode.induct)
  case (1 cb)
  show ?case by simp
next
  case (2 cb n ns)
  then show ?case by (simp add: reported_append)
next
  case (3 cb t v si b a ns)
  obtain r descend where c: "cb (Node t v si b a ns) = (r, descend)"
    by (cases "cb (Node t v si b a ns)")
  show ?case
  proof (cases "descend \<and> t = ''function''")
    case True
    with "3.IH" [OF c [symmetric]] c show ?thesis
      by (cases r) (simp_all add: reported_append)
  next
    case False
    with c show ?thesis
      by (cases r) (auto simp: reported_append)
  qed
qed

lemma reported_checkDeclTrace:
  "reported (checkDeclTrace E primary so d) = checkDecl E primary so d"
  by (simp add: checkDeclTrace_def checkDecl_def reported_walkTrace)

lemma reported_generate:
  "reported (map (\<lambda>(name, h). CallGenerateColorFuncs (first h)) cat) = []"
  by (induction cat) (auto split: prod.splits)

lemma reported_concat:
  "reported (concat xss) = concat (map reported xss)"
  by (induction xss) (simp_all add: reported_append)

lemma reported_ruleTrace:
  "reported (ruleTrace E primary so root) = rule E primary so root"
  by (simp add: ruleTrace_def rule_def reported_append reported_generate reported_concat
      reported_checkDeclTrace comp_def)

subsection \<open>The search loops and the index\<close>

lemma searchHex_find:
  "searchHex nd s = map_option fst (List.find (\<lambda>e. s \<in> set (hex (snd e))) nd)"
  by (induction nd s rule: searchHex.induct) simp_all

lemma searchFunc_find:
  "searchFunc nd s = map_option fst (List.find (\<lambda>e. s \<in> set (func (snd e))) nd)"
  by (induction nd s rule: searchFunc.induct) simp_all

lemma searchHex_Some:
  "searchHex nd s = Some c \<longleftrightarrow>
     (\<exists>j<length nd. fst (nd ! j) = c \<and> s \<in> set (hex (snd (nd ! j)))
        \<and> (\<forall>k<j. s \<notin> set (hex (snd (nd ! k)))))"
  unfolding searchHex_find map_option_eq_Some find_Some_iff
  by auto (metis fst_conv, metis prod.collapse)

lemma searchFunc_Some:
  "searchFunc nd s = Some c \<longleftrightarrow>
     (\<exists>j<length nd. fst (nd ! j) = c \<and> s \<in> set (func (snd (nd ! j)))
        \<and> (\<forall>k<j. s \<notin> set (func (snd (nd ! k)))))"
  unfolding searchFunc_find map_option_eq_Some find_Some_iff
  by auto (metis fst_conv, metis prod.collapse)

lemma searchHex_None:
  "searchHex nd s = None \<longleftrightarrow> (\<forall>e \<in> set nd. s \<notin> set (hex (snd e)))"
  unfolding searchHex_find by (auto simp: find_None_iff)

lemma searchFunc_None:
  "searchFunc nd s = None \<longleftrightarrow> (\<forall>e \<in> set nd. s \<notin> set (func (snd e)))"
  unfolding searchFunc_find by (auto simp: find_None_iff)

lemma length_namedColorData [simp]:
  "length (namedColorData E) = length (namedColorDataHex E)"
  by (simp add: namedColorData_def)

lemma namedColorData_nth:
  "j < length (namedColorDataHex E) \<Longrightarrow>
     fst (namedColorData E ! j) = fst (namedColorDataHex E ! j)
     \<and> hex (snd (namedColorData E ! j)) = snd (namedColorDataHex E ! j)
     \<and> func (snd (namedColorData E ! j)) =
         generateColorFuncs E (first (snd (namedColorDataHex E ! j)))"
  by (simp add: namedColorData_def split: prod.splits)

lemma namedColors_nth:
  "j < length (namedColorDataHex E) \<Longrightarrow> namedColors E ! j = fst (namedColorData E ! j)"
  by (simp add: namedColors_def namedColorData_nth)

subsection \<open>The ways through the callback\<close>

lemma classify_never:
  assumes "isStandardSyntaxFunction E n" "isStandardSyntaxValue E (nvalue n)"
    "ntype n = ''word''"
  shows "classify E ''never'' so d n =
     (if toLowerCase (nvalue n) \<in> set (namedColors E)
      then (Some (complain (messages_rejected E (nvalue n)) d
                    (declarationValueIndex E d + sourceIndex n)), True)
      else (None, True))"
  using assms by (simp add: classify_def NODE_TYPES_def)

lemma classify_function:
  assumes "\<not> optionsMatches E so ''ignore'' ''inside-function''"
    "isStandardSyntaxFunction E n" "isStandardSyntaxValue E (nvalue n)"
    "ntype n = ''function''" "toLowerCase (nvalue n) \<in> colorFunctionNames E"
  shows "classify E ''always-where-possible'' so d n =
     (map_option
        (\<lambda>c. complain (messages_expected E c (removeWhitespace (stringify E n))) d
               (declarationValueIndex E d + sourceIndex n))
        (searchFunc (namedColorData E) (toLowerCase (removeWhitespace (stringify E n)))),
      True)"
  using assms by (simp add: classify_def NODE_TYPES_def Let_def split: option.splits)

lemma classify_word:
  assumes "isStandardSyntaxFunction E n" "isStandardSyntaxValue E (nvalue n)"
    "ntype n = ''word''"
  shows "classify E ''always-where-possible'' so d n =
     (map_option
        (\<lambda>c. complain (messages_expected E c (nvalue n)) d
               (declarationValueIndex E d + sourceIndex n))
        (searchHex (namedColorData E) (toLowerCase (nvalue n))),
      True)"
  using assms by (simp add: classify_def NODE_TYPES_def Let_def split: option.splits)

section \<open>Skipped declarations and options\<close>

text \<open>
  Claim C7. A declaration whose property is in the set of properties that accept custom
  identifiers, or whose property matches the \<open>ignoreProperties\<close> option, yields no
  violation, whatever the primary option is: its callback returns at once with nothing
  reported, and no violation of the whole stylesheet belongs to it.
\<close>

theorem ignored_property_is_skipped:
  assumes "dprop d \<in> acceptCustomIdents E \<or> optionsMatches E so ''ignoreProperties'' (dprop d)"
  shows "checkDecl E primary so d = [] \<and> d \<notin> vnode ` set (rule E primary so root)"
proof
  show skip: "checkDecl E primary so d = []"
    using assms by (auto simp: checkDecl_def)
  show "d \<notin> vnode ` set (rule E primary so root)"
  proof
    assume "d \<in> vnode ` set (rule E primary so root)"
    then obtain x where x: "x \<in> set (rule E primary so root)" "vnode x = d"
      by auto
    then obtain d' where d': "x \<in> set (checkDecl E primary so d')"
      by (auto simp: rule_def split: if_splits)
    then have "vnode x = d'"
      by (rule checkDecl_vnode)
    with x d' skip show False by simp
  qed
qed

text \<open>The scenario of the specification: \<open>font-family: red\<close> under \<open>never\<close>.\<close>

theorem ignored_property_is_skipped_witness:
  "(dprop \<lparr>dprop = ''font-family'', dvalue = ''red''\<rparr> \<in> acceptCustomIdents exampleEnv
      \<or> optionsMatches exampleEnv None ''ignoreProperties''
           (dprop \<lparr>dprop = ''font-family'', dvalue = ''red''\<rparr>))
   \<and> checkDecl exampleEnv ''never'' None \<lparr>dprop = ''font-family'', dvalue = ''red''\<rparr> = []
   \<and> \<lparr>dprop = ''font-family'', dvalue = ''red''\<rparr>
       \<notin> vnode ` set (rule exampleEnv ''never'' None
                     [\<lparr>dprop = ''font-family'', dvalue = ''red''\<rparr>, colorDecl ''red''])"
proof -
  have h: "dprop \<lparr>dprop = ''font-family'', dvalue = ''red''\<rparr> \<in> acceptCustomIdents exampleEnv
      \<or> optionsMatches exampleEnv None ''ignoreProperties''
           (dprop \<lparr>dprop = ''font-family'', dvalue = ''red''\<rparr>)"
    by (simp add: exampleEnv_def)
  show ?thesis
    using h ignored_property_is_skipped [OF h, of "''never''"
        "[\<lparr>dprop = ''font-family'', dvalue = ''red''\<rparr>, colorDecl ''red'']"]
    by blast
qed

text \<open>
  Claim C8. When the validation of the options fails, the rule returns at once (lines
  48-50): after the call of \<open>validateOptions\<close> the run has no further step. The index is
  not built (no call of \<open>generateColorFuncs\<close>), no declaration is walked, no value is
  parsed, no node is judged, and nothing is reported, for any stylesheet.
\<close>

theorem invalid_options_no_report:
  assumes "\<not> validateOptions E primary so"
  shows "ruleTrace E primary so root = [CallValidateOptions primary so]
       \<and> rule E primary so root = []"
  using assms by (simp add: ruleTrace_def rule_def)

text \<open>
  The primary option \<open>never\<close> with an \<open>ignore\<close> option the validator rejects, on the
  stylesheet \<open>color: red\<close>: nothing happens, although the declaration, had it been walked
  with these options, would have been reported.
\<close>

theorem invalid_options_no_report_witness:
  "\<not> validateOptions exampleEnv ''never''
       (Some \<lparr>ignoreProperties = [], ignore = [''outside-function'']\<rparr>)
   \<and> ruleTrace exampleEnv ''never''
        (Some \<lparr>ignoreProperties = [], ignore = [''outside-function'']\<rparr>) [colorDecl ''red'']
       = [CallValidateOptions ''never''
            (Some \<lparr>ignoreProperties = [], ignore = [''outside-function'']\<rparr>)]
   \<and> rule exampleEnv ''never''
        (Some \<lparr>ignoreProperties = [], ignore = [''outside-function'']\<rparr>) [colorDecl ''red'']
       = []
   \<and> checkDecl exampleEnv ''never''
        (Some \<lparr>ignoreProperties = [], ignore = [''outside-function'']\<rparr>) (colorDecl ''red'')
       = [complain (messages_rejected exampleEnv ''red'') (colorDecl ''red'') 0]"
proof -
  let ?so = "Some \<lparr>ignoreProperties = [], ignore = [''outside-function'']\<rparr>"
  have h: "\<not> validateOptions exampleEnv ''never'' ?so"
    by (simp add: exampleEnv_def exampleValidateOptions_def)
  have w: "isStandardSyntaxFunction exampleEnv (wordNode ''red'' 0)"
    "isStandardSyntaxValue exampleEnv (nvalue (wordNode ''red'' 0))"
    "ntype (wordNode ''red'' 0) = ''word''"
    by (simp_all add: exampleEnv_def wordNode_def exampleIsStandardSyntaxFunction_def
        exampleIsStandardSyntaxValue_def)
  have c: "classify exampleEnv ''never'' ?so (colorDecl ''red'') (wordNode ''red'' 0) =
      (Some (complain (messages_rejected exampleEnv ''red'') (colorDecl ''red'') 0), True)"
    unfolding classify_never [OF w]
    by (simp add: wordNode_def namedColors_def exampleEnv_def exampleCatalog_def
        toLowerCase_def lowerChar_def)
  have "walk (classify exampleEnv ''never'' ?so (colorDecl ''red'')) [wordNode ''red'' 0] =
      [complain (messages_rejected exampleEnv ''red'') (colorDecl ''red'') 0]"
    using c by (simp add: wordNode_def)
  then have d: "checkDecl exampleEnv ''never'' ?so (colorDecl ''red'') =
      [complain (messages_rejected exampleEnv ''red'') (colorDecl ''red'') 0]"
    by (simp add: checkDecl_def colorDecl_def exampleEnv_def exampleOptionsMatches_def
        exampleValueParser_def)
  show ?thesis
    using h d invalid_options_no_report [OF h, of "[colorDecl ''red'']"]
    by simp
qed

text \<open>
  Claim C9. When the \<open>ignore\<close> option matches \<open>inside-function\<close>, the callback returns
  \<^verbatim>\<open>false\<close> for every function node before any check: the function itself is not
  reported, and the walker does not descend into it, so nothing inside it is reported.
\<close>

theorem inside_function_skips_function_itself:
  assumes "optionsMatches E so ''ignore'' ''inside-function''" and "ntype n = ''function''"
  shows "classify E primary so d n = (None, False) \<and> walkNode (classify E primary so d) n = []"
proof -
  have c: "classify E primary so d n = (None, False)"
    using assms by (simp add: classify_def)
  moreover have "walkNode (classify E primary so d) n = []"
    using c by (cases n) simp
  ultimately show ?thesis by simp
qed

theorem inside_function_skips_function_itself_witness:
  "optionsMatches exampleEnv (Some \<lparr>ignoreProperties = [], ignore = [''inside-function'']\<rparr>)
     ''ignore'' ''inside-function''
   \<and> ntype rgbPlain = ''function''
   \<and> classify exampleEnv ''always-where-possible''
        (Some \<lparr>ignoreProperties = [], ignore = [''inside-function'']\<rparr>)
        (colorDecl ''rgb(255,0,0)'') rgbPlain = (None, False)
   \<and> walkNode (classify exampleEnv ''always-where-possible''
        (Some \<lparr>ignoreProperties = [], ignore = [''inside-function'']\<rparr>)
        (colorDecl ''rgb(255,0,0)'')) rgbPlain = []"
proof -
  have h1: "optionsMatches exampleEnv (Some \<lparr>ignoreProperties = [], ignore = [''inside-function'']\<rparr>)
     ''ignore'' ''inside-function''"
    by (simp add: exampleEnv_def exampleOptionsMatches_def)
  have h2: "ntype rgbPlain = ''function''"
    by (simp add: rgbPlain_def)
  show ?thesis
    using h1 h2 inside_function_skips_function_itself [OF h1 h2] by simp
qed

subsection \<open>What a reported violation says about the node\<close>

lemma classify_awp_Some:
  assumes "classify E ''always-where-possible'' so d n = (Some x, b)"
  shows "(ntype n = ''function'' \<and> toLowerCase (nvalue n) \<in> colorFunctionNames E
          \<and> (\<exists>c. searchFunc (namedColorData E)
                    (toLowerCase (removeWhitespace (stringify E n))) = Some c
                \<and> x = complain (messages_expected E c (removeWhitespace (stringify E n))) d
                      (declarationValueIndex E d + sourceIndex n)))
       \<or> (\<not> (ntype n = ''function'' \<and> toLowerCase (nvalue n) \<in> colorFunctionNames E)
          \<and> (\<exists>c. searchHex (namedColorData E) (toLowerCase (nvalue n)) = Some c
                \<and> x = complain (messages_expected E c (nvalue n)) d
                      (declarationValueIndex E d + sourceIndex n)))"
  using assms
  by (auto simp: classify_def Let_def split: if_splits option.splits)

lemma classify_never_Some:
  assumes "classify E ''never'' so d n = (Some x, b)"
  shows "ntype n = ''word'' \<and> toLowerCase (nvalue n) \<in> set (namedColors E)"
  using assms
  by (auto simp: classify_def Let_def split: if_splits option.splits)

subsection \<open>Names and hex strings of a well-formed catalog\<close>

lemma lowerChar_hex: "isLowerHexDigit c \<Longrightarrow> lowerChar c = c"
  by (auto simp: isLowerHexDigit_def lowerChar_def Let_def)

lemma toLowerCase_hexString: "hexString h \<Longrightarrow> toLowerCase h = h"
proof (cases h)
  case Nil
  then show ?thesis by (simp add: toLowerCase_def)
next
  case (Cons x xs)
  assume "hexString h"
  with Cons have x: "x = CHR ''#''" and xs: "list_all isLowerHexDigit xs"
    by (simp_all add: hexString_def)
  have "lowerChar x = x"
    using x by (simp add: lowerChar_def)
  moreover have "map lowerChar xs = xs"
    using xs by (intro map_idI) (simp add: list_all_iff lowerChar_hex)
  ultimately show ?thesis
    using Cons by (simp add: toLowerCase_def)
qed

lemma lowerChar_letter: "isLowerLetter c \<Longrightarrow> lowerChar c = c \<and> c \<noteq> CHR ''#''"
  by (auto simp: isLowerLetter_def lowerChar_def Let_def)

lemma name_not_hexString: "lowercaseName c \<Longrightarrow> hexString h \<Longrightarrow> toLowerCase c \<noteq> h"
  by (cases c; cases h)
     (auto simp: lowercaseName_def hexString_def toLowerCase_def dest: lowerChar_letter)

lemma catalog_entry:
  assumes "catalogWellFormed (namedColorDataHex E)" "e \<in> set (namedColorData E)"
  shows "lowercaseName (fst e) \<and> list_all hexString (hex (snd e))"
  using assms
  by (auto simp: catalogWellFormed_def namedColorData_def list_all_iff)

lemma catalog_name:
  assumes "catalogWellFormed (namedColorDataHex E)" "c \<in> set (namedColors E)"
  shows "lowercaseName c"
  using assms
  by (auto simp: catalogWellFormed_def namedColors_def list_all_iff)

section \<open>The decision for one token\<close>

text \<open>
  Claim C2. Under the primary option \<open>never\<close>, a token that gets a violation is a word
  whose lowercased text is a name of the catalog, and every such word that passes the two
  syntax classifiers gets one; so for a token the classifiers accept, a violation is
  reported if and only if it is such a word. A function token gets no violation under
  \<open>never\<close>, whatever it is.
\<close>

theorem never_flags_exactly_named_words:
  "(isStandardSyntaxFunction E n \<and> isStandardSyntaxValue E (nvalue n) \<longrightarrow>
      (fst (classify E ''never'' so d n) \<noteq> None
         \<longleftrightarrow> ntype n = ''word'' \<and> toLowerCase (nvalue n) \<in> set (namedColors E)))
   \<and> (fst (classify E ''never'' so d n) \<noteq> None
         \<longrightarrow> ntype n = ''word'' \<and> toLowerCase (nvalue n) \<in> set (namedColors E))
   \<and> (ntype n = ''function'' \<longrightarrow> fst (classify E ''never'' so d n) = None)"
proof -
  have only_if: "ntype n = ''word'' \<and> toLowerCase (nvalue n) \<in> set (namedColors E)"
    if "fst (classify E ''never'' so d n) \<noteq> None"
  proof -
    from that obtain x b where "classify E ''never'' so d n = (Some x, b)"
      by (cases "classify E ''never'' so d n") auto
    then show ?thesis by (rule classify_never_Some)
  qed
  have "if": "fst (classify E ''never'' so d n) \<noteq> None"
    if "isStandardSyntaxFunction E n" "isStandardSyntaxValue E (nvalue n)"
      "ntype n = ''word''" "toLowerCase (nvalue n) \<in> set (namedColors E)"
    using that by (simp add: classify_never)
  have "fst (classify E ''never'' so d n) = None" if "ntype n = ''function''"
  proof (rule ccontr)
    assume "fst (classify E ''never'' so d n) \<noteq> None"
    from only_if [OF this] that show False by simp
  qed
  with only_if "if" show ?thesis by blast
qed

theorem never_flags_exactly_named_words_witness:
  "isStandardSyntaxFunction exampleEnv (wordNode ''red'' 0)
   \<and> isStandardSyntaxValue exampleEnv (nvalue (wordNode ''red'' 0))
   \<and> ntype (wordNode ''red'' 0) = ''word''
   \<and> toLowerCase (nvalue (wordNode ''red'' 0)) \<in> set (namedColors exampleEnv)
   \<and> fst (classify exampleEnv ''never'' None (colorDecl ''red'') (wordNode ''red'' 0)) \<noteq> None
   \<and> ntype rgbPlain = ''function''
   \<and> fst (classify exampleEnv ''never'' None (colorDecl ''rgb(255,0,0)'') rgbPlain) = None"
proof -
  have g: "isStandardSyntaxFunction exampleEnv (wordNode ''red'' 0)
      \<and> isStandardSyntaxValue exampleEnv (nvalue (wordNode ''red'' 0))"
    by (simp add: exampleEnv_def wordNode_def exampleIsStandardSyntaxFunction_def
        exampleIsStandardSyntaxValue_def)
  have w: "ntype (wordNode ''red'' 0) = ''word''
      \<and> toLowerCase (nvalue (wordNode ''red'' 0)) \<in> set (namedColors exampleEnv)"
    by (simp add: wordNode_def namedColors_def exampleEnv_def exampleCatalog_def
        toLowerCase_def lowerChar_def)
  have f: "ntype rgbPlain = ''function''"
    by (simp add: rgbPlain_def)
  show ?thesis
    using g w f
      never_flags_exactly_named_words [of exampleEnv "wordNode ''red'' 0" None "colorDecl ''red''"]
      never_flags_exactly_named_words [of exampleEnv rgbPlain None "colorDecl ''rgb(255,0,0)''"]
    by blast
qed

text \<open>
  Claim C6. Under \<open>always-where-possible\<close>, a word token whose text is the name of a
  named color of the catalog gets no violation: the names of the catalog are lowercase
  words and its hex forms are hex strings, so the name is no color's hex form.
\<close>

theorem named_word_not_flagged_when_preferred:
  assumes "catalogWellFormed (namedColorDataHex E)"
    and "c \<in> set (namedColors E)"
    and "ntype n = ''word''" and "nvalue n = c"
  shows "fst (classify E ''always-where-possible'' so d n) = None"
proof (rule ccontr)
  assume "fst (classify E ''always-where-possible'' so d n) \<noteq> None"
  then obtain x b where "classify E ''always-where-possible'' so d n = (Some x, b)"
    by (cases "classify E ''always-where-possible'' so d n") auto
  from classify_awp_Some [OF this] assms(3,4)
  obtain c' where "searchHex (namedColorData E) (toLowerCase c) = Some c'"
    by auto
  then obtain e where e: "e \<in> set (namedColorData E)" "toLowerCase c \<in> set (hex (snd e))"
    using searchHex_None [of "namedColorData E" "toLowerCase c"] by auto
  from catalog_entry [OF assms(1) e(1)] e(2) have "hexString (toLowerCase c)"
    by (auto simp: list_all_iff)
  with name_not_hexString [OF catalog_name [OF assms(1,2)]] show False
    by blast
qed

theorem named_word_not_flagged_when_preferred_witness:
  "catalogWellFormed (namedColorDataHex exampleEnv)
   \<and> ''red'' \<in> set (namedColors exampleEnv)
   \<and> ntype (wordNode ''red'' 0) = ''word'' \<and> nvalue (wordNode ''red'' 0) = ''red''
   \<and> fst (classify exampleEnv ''always-where-possible'' None (colorDecl ''red'')
            (wordNode ''red'' 0)) = None"
proof -
  have wf: "catalogWellFormed (namedColorDataHex exampleEnv)"
    by (simp add: exampleEnv_def catalogWellFormed_def exampleCatalog_def lowercaseName_def
        hexString_def isLowerLetter_def isLowerHexDigit_def)
  have c: "''red'' \<in> set (namedColors exampleEnv)"
    by (simp add: namedColors_def exampleEnv_def exampleCatalog_def)
  have t: "ntype (wordNode ''red'' 0) = ''word''" and v: "nvalue (wordNode ''red'' 0) = ''red''"
    by (simp_all add: wordNode_def)
  show ?thesis
    using wf c t v named_word_not_flagged_when_preferred [OF wf c t v] by simp
qed

subsection \<open>The first match of a search\<close>

lemma classify_hex:
  assumes "\<not> (optionsMatches E so ''ignore'' ''inside-function'' \<and> ntype n = ''function'')"
    and "isStandardSyntaxFunction E n" and "isStandardSyntaxValue E (nvalue n)"
    and "ntype n = ''word'' \<or> ntype n = ''function''"
    and "\<not> (ntype n = ''function'' \<and> toLowerCase (nvalue n) \<in> colorFunctionNames E)"
  shows "classify E ''always-where-possible'' so d n =
     (map_option
        (\<lambda>c. complain (messages_expected E c (nvalue n)) d
               (declarationValueIndex E d + sourceIndex n))
        (searchHex (namedColorData E) (toLowerCase (nvalue n))),
      True)"
  using assms
  by (auto simp: classify_def NODE_TYPES_def Let_def split: option.splits)

lemma searchHex_first:
  assumes "i < length nd" and "s \<in> set (hex (snd (nd ! i)))"
  shows "\<exists>j\<le>i. s \<in> set (hex (snd (nd ! j))) \<and> (\<forall>k<j. s \<notin> set (hex (snd (nd ! k))))
           \<and> searchHex nd s = Some (fst (nd ! j))"
proof -
  have "nd ! i \<in> set nd"
    using assms(1) by simp
  with assms(2) have "searchHex nd s \<noteq> None"
    unfolding searchHex_None by blast
  then obtain c where c: "searchHex nd s = Some c"
    by auto
  then obtain j where j: "j < length nd" "fst (nd ! j) = c" "s \<in> set (hex (snd (nd ! j)))"
    "\<forall>k<j. s \<notin> set (hex (snd (nd ! k)))"
    unfolding searchHex_Some by blast
  have "j \<le> i"
  proof (rule ccontr)
    assume "\<not> j \<le> i"
    then have "i < j" by simp
    with j(4) assms(2) show False by blast
  qed
  with j c show ?thesis by blast
qed

lemma searchFunc_first:
  assumes "i < length nd" and "s \<in> set (func (snd (nd ! i)))"
  shows "\<exists>j\<le>i. s \<in> set (func (snd (nd ! j))) \<and> (\<forall>k<j. s \<notin> set (func (snd (nd ! k))))
           \<and> searchFunc nd s = Some (fst (nd ! j))"
proof -
  have "nd ! i \<in> set nd"
    using assms(1) by simp
  with assms(2) have "searchFunc nd s \<noteq> None"
    unfolding searchFunc_None by blast
  then obtain c where c: "searchFunc nd s = Some c"
    by auto
  then obtain j where j: "j < length nd" "fst (nd ! j) = c" "s \<in> set (func (snd (nd ! j)))"
    "\<forall>k<j. s \<notin> set (func (snd (nd ! k)))"
    unfolding searchFunc_Some by blast
  have "j \<le> i"
  proof (rule ccontr)
    assume "\<not> j \<le> i"
    then have "i < j" by simp
    with j(4) assms(2) show False by blast
  qed
  with j c show ?thesis by blast
qed

text \<open>
  Claim C5. Take a token that the callback judges under \<open>always-where-possible\<close>: a word
  or a function that the syntax classifiers accept and that the \<open>ignore\<close> option does not
  skip. If its normalised text is among the forms of the color at position \<open>i\<close> of the
  catalog order, the token is reported, and the name the message suggests is the name at
  the first position \<open>j\<close> whose forms contain the text: \<open>j\<close> is at most \<open>i\<close>, no color before
  \<open>j\<close> matches, and whatever matches after \<open>j\<close> plays no part. So when several colors
  match, the first of them in catalog order is suggested. For a recognised color function
  the forms are the function forms and the text is the printed node without whitespace,
  lowercased; for any other token the forms are the hex forms and the text is the
  lowercased value.
\<close>

theorem first_match_wins:
  assumes visited: "\<not> (optionsMatches E so ''ignore'' ''inside-function'' \<and> ntype n = ''function'')"
    and standard: "isStandardSyntaxFunction E n" "isStandardSyntaxValue E (nvalue n)"
    and kind: "ntype n = ''word'' \<or> ntype n = ''function''"
    and i: "i < length (namedColorData E)"
  shows "(ntype n = ''function'' \<and> toLowerCase (nvalue n) \<in> colorFunctionNames E \<longrightarrow>
          toLowerCase (removeWhitespace (stringify E n)) \<in> set (func (snd (namedColorData E ! i))) \<longrightarrow>
          (\<exists>j\<le>i.
             toLowerCase (removeWhitespace (stringify E n)) \<in> set (func (snd (namedColorData E ! j)))
           \<and> (\<forall>k<j. toLowerCase (removeWhitespace (stringify E n))
                       \<notin> set (func (snd (namedColorData E ! k))))
           \<and> classify E ''always-where-possible'' so d n =
               (Some (complain (messages_expected E (namedColors E ! j)
                                  (removeWhitespace (stringify E n))) d
                        (declarationValueIndex E d + sourceIndex n)), True)))
       \<and> (\<not> (ntype n = ''function'' \<and> toLowerCase (nvalue n) \<in> colorFunctionNames E) \<longrightarrow>
          toLowerCase (nvalue n) \<in> set (hex (snd (namedColorData E ! i))) \<longrightarrow>
          (\<exists>j\<le>i.
             toLowerCase (nvalue n) \<in> set (hex (snd (namedColorData E ! j)))
           \<and> (\<forall>k<j. toLowerCase (nvalue n) \<notin> set (hex (snd (namedColorData E ! k))))
           \<and> classify E ''always-where-possible'' so d n =
               (Some (complain (messages_expected E (namedColors E ! j) (nvalue n)) d
                        (declarationValueIndex E d + sourceIndex n)), True)))"
proof (intro conjI impI)
  let ?nd = "namedColorData E"
  let ?s = "toLowerCase (removeWhitespace (stringify E n))"
  assume f: "ntype n = ''function'' \<and> toLowerCase (nvalue n) \<in> colorFunctionNames E"
    and m: "?s \<in> set (func (snd (?nd ! i)))"
  from visited f have off: "\<not> optionsMatches E so ''ignore'' ''inside-function''"
    by simp
  from searchFunc_first [OF i m] obtain j where j: "j \<le> i" "?s \<in> set (func (snd (?nd ! j)))"
    "\<forall>k<j. ?s \<notin> set (func (snd (?nd ! k)))" "searchFunc ?nd ?s = Some (fst (?nd ! j))"
    by blast
  from j(1) i have "namedColors E ! j = fst (?nd ! j)"
    by (simp add: namedColors_nth)
  with j(4) have "classify E ''always-where-possible'' so d n =
      (Some (complain (messages_expected E (namedColors E ! j)
               (removeWhitespace (stringify E n))) d
               (declarationValueIndex E d + sourceIndex n)), True)"
    using classify_function [OF off standard, of d] f by simp
  with j(1-3) show "\<exists>j\<le>i. ?s \<in> set (func (snd (?nd ! j)))
       \<and> (\<forall>k<j. ?s \<notin> set (func (snd (?nd ! k))))
       \<and> classify E ''always-where-possible'' so d n =
           (Some (complain (messages_expected E (namedColors E ! j)
                    (removeWhitespace (stringify E n))) d
                    (declarationValueIndex E d + sourceIndex n)), True)"
    by blast
next
  let ?nd = "namedColorData E"
  let ?s = "toLowerCase (nvalue n)"
  assume f: "\<not> (ntype n = ''function'' \<and> toLowerCase (nvalue n) \<in> colorFunctionNames E)"
    and m: "?s \<in> set (hex (snd (?nd ! i)))"
  from searchHex_first [OF i m] obtain j where j: "j \<le> i" "?s \<in> set (hex (snd (?nd ! j)))"
    "\<forall>k<j. ?s \<notin> set (hex (snd (?nd ! k)))" "searchHex ?nd ?s = Some (fst (?nd ! j))"
    by blast
  from j(1) i have "namedColors E ! j = fst (?nd ! j)"
    by (simp add: namedColors_nth)
  with j(4) have "classify E ''always-where-possible'' so d n =
      (Some (complain (messages_expected E (namedColors E ! j) (nvalue n)) d
               (declarationValueIndex E d + sourceIndex n)), True)"
    using classify_hex [OF visited standard kind f, of d] by simp
  with j(1-3) show "\<exists>j\<le>i. ?s \<in> set (hex (snd (?nd ! j)))
       \<and> (\<forall>k<j. ?s \<notin> set (hex (snd (?nd ! k))))
       \<and> classify E ''always-where-possible'' so d n =
           (Some (complain (messages_expected E (namedColors E ! j) (nvalue n)) d
                    (declarationValueIndex E d + sourceIndex n)), True)"
    by blast
qed

text \<open>The index of the example catalog, and the word \<open>#808080\<close>, which is a hex form of
  both \<open>gray\<close> and \<open>grey\<close>.\<close>

lemma example_index:
  "namedColorData exampleEnv =
     [(''gray'', \<lparr>hex = [''#808080''], func = [''rgb(128,128,128)'']\<rparr>),
      (''grey'', \<lparr>hex = [''#808080''], func = [''rgb(128,128,128)'']\<rparr>),
      (''red'', \<lparr>hex = [''#ff0000'', ''#f00''],
                 func = [''rgb(255,0,0)'', ''rgb(100%,0%,0%)'']\<rparr>)]"
  by (simp add: namedColorData_def exampleEnv_def exampleCatalog_def
      exampleGenerateColorFuncs_def first_def)

lemma example_gray_word:
  "classify exampleEnv ''always-where-possible'' None (colorDecl ''#808080'')
     (wordNode ''#808080'' 0) =
   (Some (complain (messages_expected exampleEnv ''gray'' ''#808080'')
            (colorDecl ''#808080'') 0), True)"
proof -
  have g: "isStandardSyntaxFunction exampleEnv (wordNode ''#808080'' 0)"
    "isStandardSyntaxValue exampleEnv (nvalue (wordNode ''#808080'' 0))"
    "ntype (wordNode ''#808080'' 0) = ''word''"
    by (simp_all add: exampleEnv_def wordNode_def exampleIsStandardSyntaxFunction_def
        exampleIsStandardSyntaxValue_def)
  have l: "toLowerCase ''#808080'' = ''#808080''"
    by (simp add: toLowerCase_def lowerChar_def)
  have i: "declarationValueIndex exampleEnv (colorDecl ''#808080'') = 0"
    by (simp add: exampleEnv_def)
  show ?thesis
    unfolding classify_word [OF g] example_index
    by (simp add: wordNode_def l i)
qed

text \<open>
  In the catalog that starts with \<open>black\<close>, the word \<open>#808080\<close> and the function
  \<open>rgb(128,128,128)\<close> match \<open>gray\<close> at position 1 and \<open>grey\<close> at position 2 and do not
  match \<open>black\<close> at position 0; both are reported as \<open>gray\<close>.
\<close>

lemma example_index_from_black:
  "namedColorData exampleEnvFromBlack =
     [(''black'', \<lparr>hex = [''#000000'', ''#000''], func = [''rgb(0,0,0)'', ''rgb(0%,0%,0%)'']\<rparr>),
      (''gray'', \<lparr>hex = [''#808080''], func = [''rgb(128,128,128)'']\<rparr>),
      (''grey'', \<lparr>hex = [''#808080''], func = [''rgb(128,128,128)'']\<rparr>),
      (''red'', \<lparr>hex = [''#ff0000'', ''#f00''],
                 func = [''rgb(255,0,0)'', ''rgb(100%,0%,0%)'']\<rparr>)]"
  by (simp add: namedColorData_def exampleEnvFromBlack_def exampleEnv_def
      exampleCatalogFromBlack_def exampleCatalog_def exampleGenerateColorFuncs_def first_def)

lemma example_names_from_black:
  "namedColors exampleEnvFromBlack = [''black'', ''gray'', ''grey'', ''red'']"
  by (simp add: namedColors_def exampleEnvFromBlack_def exampleEnv_def
      exampleCatalogFromBlack_def exampleCatalog_def)

lemma example_gray_texts:
  "toLowerCase ''#808080'' = ''#808080''"
  "stringify exampleEnvFromBlack rgbGray = ''rgb(128,128,128)''"
  "removeWhitespace ''rgb(128,128,128)'' = ''rgb(128,128,128)''"
  "toLowerCase ''rgb(128,128,128)'' = ''rgb(128,128,128)''"
  "toLowerCase ''rgb'' = ''rgb''"
  by (simp_all add: toLowerCase_def lowerChar_def removeWhitespace_def isWhitespace_def
      exampleEnvFromBlack_def exampleEnv_def rgbGray_def wordNode_def divNode_def)

lemma upto_two: "j \<le> 2 \<Longrightarrow> j = 0 \<or> j = 1 \<or> j = (2::nat)"
  by arith

theorem first_match_wins_witness:
  "\<not> (optionsMatches exampleEnvFromBlack None ''ignore'' ''inside-function''
        \<and> ntype (wordNode ''#808080'' 0) = ''function'')
   \<and> isStandardSyntaxFunction exampleEnvFromBlack (wordNode ''#808080'' 0)
   \<and> isStandardSyntaxValue exampleEnvFromBlack (nvalue (wordNode ''#808080'' 0))
   \<and> ntype (wordNode ''#808080'' 0) = ''word''
   \<and> (2::nat) < length (namedColorData exampleEnvFromBlack)
   \<and> toLowerCase (nvalue (wordNode ''#808080'' 0))
        \<notin> set (hex (snd (namedColorData exampleEnvFromBlack ! 0)))
   \<and> toLowerCase (nvalue (wordNode ''#808080'' 0))
        \<in> set (hex (snd (namedColorData exampleEnvFromBlack ! 1)))
   \<and> toLowerCase (nvalue (wordNode ''#808080'' 0))
        \<in> set (hex (snd (namedColorData exampleEnvFromBlack ! 2)))
   \<and> classify exampleEnvFromBlack ''always-where-possible'' None (colorDecl ''#808080'')
        (wordNode ''#808080'' 0) =
      (Some (complain (messages_expected exampleEnvFromBlack ''gray'' ''#808080'')
               (colorDecl ''#808080'') 0), True)
   \<and> \<not> (optionsMatches exampleEnvFromBlack None ''ignore'' ''inside-function''
        \<and> ntype rgbGray = ''function'')
   \<and> isStandardSyntaxFunction exampleEnvFromBlack rgbGray
   \<and> isStandardSyntaxValue exampleEnvFromBlack (nvalue rgbGray)
   \<and> ntype rgbGray = ''function''
   \<and> toLowerCase (nvalue rgbGray) \<in> colorFunctionNames exampleEnvFromBlack
   \<and> toLowerCase (removeWhitespace (stringify exampleEnvFromBlack rgbGray))
        \<notin> set (func (snd (namedColorData exampleEnvFromBlack ! 0)))
   \<and> toLowerCase (removeWhitespace (stringify exampleEnvFromBlack rgbGray))
        \<in> set (func (snd (namedColorData exampleEnvFromBlack ! 1)))
   \<and> toLowerCase (removeWhitespace (stringify exampleEnvFromBlack rgbGray))
        \<in> set (func (snd (namedColorData exampleEnvFromBlack ! 2)))
   \<and> classify exampleEnvFromBlack ''always-where-possible'' None
        (colorDecl ''rgb(128,128,128)'') rgbGray =
      (Some (complain (messages_expected exampleEnvFromBlack ''gray'' ''rgb(128,128,128)'')
               (colorDecl ''rgb(128,128,128)'') 0), True)"
proof -
  let ?E = exampleEnvFromBlack and ?w = "wordNode ''#808080'' 0"
  let ?nd = "namedColorData exampleEnvFromBlack"
  have len: "(2::nat) < length ?nd"
    by (simp add: example_index_from_black)
  have zero: "declarationValueIndex ?E d = 0" for d
    by (simp add: exampleEnvFromBlack_def exampleEnv_def)
  have off: "\<not> optionsMatches ?E None ''ignore'' ''inside-function''"
    by (simp add: exampleEnvFromBlack_def exampleEnv_def exampleOptionsMatches_def)
  have w_visited: "\<not> (optionsMatches ?E None ''ignore'' ''inside-function''
      \<and> ntype ?w = ''function'')"
    using off by simp
  have w_standard: "isStandardSyntaxFunction ?E ?w" "isStandardSyntaxValue ?E (nvalue ?w)"
    by (simp_all add: exampleEnvFromBlack_def exampleEnv_def wordNode_def
        exampleIsStandardSyntaxFunction_def exampleIsStandardSyntaxValue_def)
  have w_word: "ntype ?w = ''word''" and w_value: "nvalue ?w = ''#808080''"
    and w_place: "sourceIndex ?w = 0"
    by (simp_all add: wordNode_def)
  have w_kind: "ntype ?w = ''word'' \<or> ntype ?w = ''function''"
    using w_word by simp
  have w_other: "\<not> (ntype ?w = ''function''
      \<and> toLowerCase (nvalue ?w) \<in> colorFunctionNames ?E)"
    using w_word by simp
  have w0: "toLowerCase (nvalue ?w) \<notin> set (hex (snd (?nd ! 0)))"
    and w1: "toLowerCase (nvalue ?w) \<in> set (hex (snd (?nd ! 1)))"
    and w2: "toLowerCase (nvalue ?w) \<in> set (hex (snd (?nd ! 2)))"
    by (simp_all add: w_value example_gray_texts example_index_from_black)
  from first_match_wins [OF w_visited w_standard w_kind len, of "colorDecl ''#808080''"]
    w_other w2
  obtain j where j: "j \<le> 2" "toLowerCase (nvalue ?w) \<in> set (hex (snd (?nd ! j)))"
    "\<forall>k<j. toLowerCase (nvalue ?w) \<notin> set (hex (snd (?nd ! k)))"
    "classify ?E ''always-where-possible'' None (colorDecl ''#808080'') ?w =
       (Some (complain (messages_expected ?E (namedColors ?E ! j) (nvalue ?w))
                (colorDecl ''#808080'')
                (declarationValueIndex ?E (colorDecl ''#808080'') + sourceIndex ?w)), True)"
    by blast
  have "j = 1"
    using upto_two [OF j(1)] j(2,3) w0 w1 by auto
  with j(4) have w_result:
    "classify ?E ''always-where-possible'' None (colorDecl ''#808080'') ?w =
       (Some (complain (messages_expected ?E ''gray'' ''#808080'') (colorDecl ''#808080'') 0),
        True)"
    by (simp add: example_names_from_black w_value w_place zero)
  have f_visited: "\<not> (optionsMatches ?E None ''ignore'' ''inside-function''
      \<and> ntype rgbGray = ''function'')"
    using off by simp
  have f_function: "ntype rgbGray = ''function''" and f_value: "nvalue rgbGray = ''rgb''"
    and f_place: "sourceIndex rgbGray = 0"
    by (simp_all add: rgbGray_def)
  have f_standard: "isStandardSyntaxFunction ?E rgbGray" "isStandardSyntaxValue ?E (nvalue rgbGray)"
    by (simp_all add: exampleEnvFromBlack_def exampleEnv_def f_value
        exampleIsStandardSyntaxFunction_def exampleIsStandardSyntaxValue_def)
  have f_kind: "ntype rgbGray = ''word'' \<or> ntype rgbGray = ''function''"
    using f_function by simp
  have f_name: "toLowerCase (nvalue rgbGray) \<in> colorFunctionNames ?E"
    by (simp add: f_value example_gray_texts exampleEnvFromBlack_def exampleEnv_def)
  have f_text: "removeWhitespace (stringify ?E rgbGray) = ''rgb(128,128,128)''"
    by (simp add: example_gray_texts)
  have f0: "toLowerCase (removeWhitespace (stringify ?E rgbGray)) \<notin> set (func (snd (?nd ! 0)))"
    and f1: "toLowerCase (removeWhitespace (stringify ?E rgbGray)) \<in> set (func (snd (?nd ! 1)))"
    and f2: "toLowerCase (removeWhitespace (stringify ?E rgbGray)) \<in> set (func (snd (?nd ! 2)))"
    by (simp_all add: f_text example_gray_texts example_index_from_black)
  from first_match_wins [OF f_visited f_standard f_kind len, of "colorDecl ''rgb(128,128,128)''"]
    f_function f_name f2
  obtain j' where j': "j' \<le> 2"
    "toLowerCase (removeWhitespace (stringify ?E rgbGray)) \<in> set (func (snd (?nd ! j')))"
    "\<forall>k<j'. toLowerCase (removeWhitespace (stringify ?E rgbGray)) \<notin> set (func (snd (?nd ! k)))"
    "classify ?E ''always-where-possible'' None (colorDecl ''rgb(128,128,128)'') rgbGray =
       (Some (complain (messages_expected ?E (namedColors ?E ! j')
                          (removeWhitespace (stringify ?E rgbGray)))
                (colorDecl ''rgb(128,128,128)'')
                (declarationValueIndex ?E (colorDecl ''rgb(128,128,128)'') + sourceIndex rgbGray)),
        True)"
    by blast
  have "j' = 1"
    using upto_two [OF j'(1)] j'(2,3) f0 f1 by auto
  with j'(4) have f_result:
    "classify ?E ''always-where-possible'' None (colorDecl ''rgb(128,128,128)'') rgbGray =
       (Some (complain (messages_expected ?E ''gray'' ''rgb(128,128,128)'')
                (colorDecl ''rgb(128,128,128)'') 0), True)"
    by (simp add: example_names_from_black f_text f_place zero)
  from w_visited w_standard w_word len w0 w1 w2 w_result
    f_visited f_standard f_function f_name f0 f1 f2 f_result
  show ?thesis
    by blast
qed

text \<open>
  Claim C1, as the code has it. Let \<open>h\<close> be a hex form of the named color \<open>c\<close> at position
  \<open>i\<close> of a well-formed catalog. A word token with text \<open>h\<close> that the syntax classifiers
  accept gets, under \<open>always-where-possible\<close>, an \<open>expected\<close> violation that quotes \<open>h\<close> and
  suggests the first color of the catalog order that has \<open>h\<close> among its hex forms; that
  color is at a position up to \<open>i\<close>, and it is \<open>c\<close> when no color before \<open>c\<close> has \<open>h\<close>.
\<close>

theorem hex_spelling_suggests_first_color:
  assumes wf: "catalogWellFormed (namedColorDataHex E)"
    and i: "i < length (namedColorDataHex E)"
    and entry: "namedColorDataHex E ! i = (c, hs)"
    and h: "h \<in> set hs"
    and word: "ntype n = ''word''" "nvalue n = h"
    and gates: "isStandardSyntaxFunction E n" "isStandardSyntaxValue E h"
  shows "\<exists>j\<le>i. h \<in> set (snd (namedColorDataHex E ! j))
           \<and> (\<forall>k<j. h \<notin> set (snd (namedColorDataHex E ! k)))
           \<and> classify E ''always-where-possible'' so d n =
               (Some (complain (messages_expected E (fst (namedColorDataHex E ! j)) h) d
                        (declarationValueIndex E d + sourceIndex n)), True)
           \<and> ((\<forall>k<i. h \<notin> set (snd (namedColorDataHex E ! k)))
                 \<longrightarrow> fst (namedColorDataHex E ! j) = c)"
proof -
  let ?nd = "namedColorData E" and ?cat = "namedColorDataHex E"
  have at_i: "h \<in> set (hex (snd (?nd ! i)))"
    using i entry h by (simp add: namedColorData_nth)
  have "?nd ! i \<in> set ?nd"
    using i by simp
  from catalog_entry [OF wf this] at_i have "hexString h"
    by (auto simp: list_all_iff)
  then have lower: "toLowerCase h = h"
    by (rule toLowerCase_hexString)
  have "searchHex ?nd h \<noteq> None"
    using at_i \<open>?nd ! i \<in> set ?nd\<close> unfolding searchHex_None by blast
  then obtain c' where found: "searchHex ?nd h = Some c'"
    by auto
  then obtain j where j: "j < length ?nd" "fst (?nd ! j) = c'"
    "h \<in> set (hex (snd (?nd ! j)))" "\<forall>k<j. h \<notin> set (hex (snd (?nd ! k)))"
    unfolding searchHex_Some by blast
  have "j \<le> i"
  proof (rule ccontr)
    assume "\<not> j \<le> i"
    then have "i < j" by simp
    with j(4) at_i show False by blast
  qed
  have jc: "j < length ?cat"
    using j(1) by simp
  have before: "\<forall>k<j. h \<notin> set (snd (?cat ! k))"
  proof (intro allI impI)
    fix k
    assume "k < j"
    with j(4) jc have "h \<notin> set (hex (snd (?nd ! k)))" and "k < length ?cat"
      by simp_all
    then show "h \<notin> set (snd (?cat ! k))"
      by (simp add: namedColorData_nth)
  qed
  have here: "h \<in> set (snd (?cat ! j))"
    using j(3) jc by (simp add: namedColorData_nth)
  have name: "fst (?cat ! j) = c'"
    using j(2) jc by (simp add: namedColorData_nth)
  have result: "classify E ''always-where-possible'' so d n =
      (Some (complain (messages_expected E (fst (?cat ! j)) h) d
               (declarationValueIndex E d + sourceIndex n)), True)"
    using classify_word [of E n so d] word gates found lower name by simp
  have same: "fst (?cat ! j) = c" if "\<forall>k<i. h \<notin> set (snd (?cat ! k))"
  proof -
    from that here have "\<not> j < i" by blast
    with \<open>j \<le> i\<close> have "j = i" by simp
    with entry show ?thesis by simp
  qed
  from \<open>j \<le> i\<close> here before result same show ?thesis
    by blast
qed

text \<open>The example catalog: \<open>red\<close> is the first color with \<open>#f00\<close>.\<close>

lemma example_catalog_wf: "catalogWellFormed (namedColorDataHex exampleEnv)"
  by (simp add: exampleEnv_def catalogWellFormed_def exampleCatalog_def lowercaseName_def
      hexString_def isLowerLetter_def isLowerHexDigit_def)

lemma example_catalog_red: "namedColorDataHex exampleEnv ! 2 = (''red'', [''#ff0000'', ''#f00''])"
  by (simp add: exampleEnv_def exampleCatalog_def)

lemma example_messages_differ:
  "a \<noteq> b \<Longrightarrow> messages_expected exampleEnv a original \<noteq> messages_expected exampleEnv b original"
  by (simp add: messages_expected_def exampleEnv_def)

theorem hex_spelling_suggests_first_color_witness:
  "catalogWellFormed (namedColorDataHex exampleEnv)
   \<and> (2::nat) < length (namedColorDataHex exampleEnv)
   \<and> namedColorDataHex exampleEnv ! 2 = (''red'', [''#ff0000'', ''#f00''])
   \<and> ''#f00'' \<in> set [''#ff0000'', ''#f00'']
   \<and> ntype (wordNode ''#f00'' 0) = ''word'' \<and> nvalue (wordNode ''#f00'' 0) = ''#f00''
   \<and> isStandardSyntaxFunction exampleEnv (wordNode ''#f00'' 0)
   \<and> isStandardSyntaxValue exampleEnv ''#f00''
   \<and> classify exampleEnv ''always-where-possible'' None (colorDecl ''#f00'')
        (wordNode ''#f00'' 0) =
       (Some (complain (messages_expected exampleEnv ''red'' ''#f00'') (colorDecl ''#f00'')
                (declarationValueIndex exampleEnv (colorDecl ''#f00'')
                 + sourceIndex (wordNode ''#f00'' 0))), True)"
proof -
  have i: "(2::nat) < length (namedColorDataHex exampleEnv)"
    by (simp add: exampleEnv_def exampleCatalog_def)
  have h: "''#f00'' \<in> set [''#ff0000'', ''#f00'']"
    by simp
  have word: "ntype (wordNode ''#f00'' 0) = ''word''" "nvalue (wordNode ''#f00'' 0) = ''#f00''"
    by (simp_all add: wordNode_def)
  have gates: "isStandardSyntaxFunction exampleEnv (wordNode ''#f00'' 0)"
    "isStandardSyntaxValue exampleEnv ''#f00''"
    by (simp_all add: exampleEnv_def wordNode_def exampleIsStandardSyntaxFunction_def
        exampleIsStandardSyntaxValue_def)
  have none_before: "\<forall>k<2. ''#f00'' \<notin> set (snd (namedColorDataHex exampleEnv ! k))"
    by (simp add: exampleEnv_def exampleCatalog_def less_Suc_eq numeral_2_eq_2)
  from hex_spelling_suggests_first_color
    [OF example_catalog_wf i example_catalog_red h word gates,
      of None "colorDecl ''#f00''"] none_before
  have "classify exampleEnv ''always-where-possible'' None (colorDecl ''#f00'')
        (wordNode ''#f00'' 0) =
       (Some (complain (messages_expected exampleEnv ''red'' ''#f00'') (colorDecl ''#f00'')
                (declarationValueIndex exampleEnv (colorDecl ''#f00'')
                 + sourceIndex (wordNode ''#f00'' 0))), True)"
    by auto
  with example_catalog_wf i example_catalog_red h word gates show ?thesis
    by simp
qed

text \<open>
  Claim C1 as it is stated fails for \<open>grey\<close>: its hex form \<open>#808080\<close> is also a hex form
  of \<open>gray\<close>, which comes first, so the violation suggests \<open>gray\<close> and not \<open>grey\<close>.
\<close>

theorem grey_hex_suggests_gray:
  "namedColorDataHex exampleEnv ! 1 = (''grey'', [''#808080''])
   \<and> ''#808080'' \<in> set [''#808080'']
   \<and> ntype (wordNode ''#808080'' 0) = ''word''
   \<and> nvalue (wordNode ''#808080'' 0) = ''#808080''
   \<and> classify exampleEnv ''always-where-possible'' None (colorDecl ''#808080'')
        (wordNode ''#808080'' 0) =
      (Some (complain (messages_expected exampleEnv ''gray'' ''#808080'')
               (colorDecl ''#808080'') 0), True)
   \<and> messages_expected exampleEnv ''gray'' ''#808080''
       \<noteq> messages_expected exampleEnv ''grey'' ''#808080''
   \<and> fst (classify exampleEnv ''always-where-possible'' None (colorDecl ''#808080'')
        (wordNode ''#808080'' 0)) \<noteq>
      Some (complain (messages_expected exampleEnv ''grey'' ''#808080'')
               (colorDecl ''#808080'') 0)"
proof -
  have "messages_expected exampleEnv ''gray'' ''#808080''
       \<noteq> messages_expected exampleEnv ''grey'' ''#808080''"
    by (rule example_messages_differ) simp
  then show ?thesis
    unfolding example_gray_word
    by (simp add: exampleEnv_def exampleCatalog_def wordNode_def complain_def)
qed

text \<open>
  Claim C3, as the code has it. Under \<open>always-where-possible\<close>, take a function token
  whose lowercased name is a recognised color function, which the syntax classifiers
  accept, while the \<open>ignore\<close> option does not match \<open>inside-function\<close>. It gets a violation
  if and only if its printed text, without whitespace and lowercased, is a function form
  of some color of the index; the suggested name is then the first color of the catalog
  order with that form; and when no color has the form the token gets nothing, whatever
  the hex forms are: the hex loop is not run for it.
\<close>

theorem color_function_flagged_iff_function_form:
  assumes "\<not> optionsMatches E so ''ignore'' ''inside-function''"
    and "isStandardSyntaxFunction E n" and "isStandardSyntaxValue E (nvalue n)"
    and "ntype n = ''function''" and "toLowerCase (nvalue n) \<in> colorFunctionNames E"
  shows "(fst (classify E ''always-where-possible'' so d n) \<noteq> None \<longleftrightarrow>
            (\<exists>e \<in> set (namedColorData E).
               toLowerCase (removeWhitespace (stringify E n)) \<in> set (func (snd e))))
       \<and> (\<forall>j<length (namedColorData E).
            toLowerCase (removeWhitespace (stringify E n)) \<in> set (func (snd (namedColorData E ! j)))
            \<and> (\<forall>k<j. toLowerCase (removeWhitespace (stringify E n))
                        \<notin> set (func (snd (namedColorData E ! k))))
            \<longrightarrow> classify E ''always-where-possible'' so d n =
                  (Some (complain (messages_expected E (namedColors E ! j)
                                     (removeWhitespace (stringify E n))) d
                           (declarationValueIndex E d + sourceIndex n)), True))
       \<and> ((\<forall>e \<in> set (namedColorData E).
              toLowerCase (removeWhitespace (stringify E n)) \<notin> set (func (snd e)))
            \<longrightarrow> classify E ''always-where-possible'' so d n = (None, True))"
proof -
  let ?nd = "namedColorData E"
  let ?s = "toLowerCase (removeWhitespace (stringify E n))"
  note c = classify_function [OF assms, of d]
  have iff: "fst (classify E ''always-where-possible'' so d n) \<noteq> None \<longleftrightarrow>
      (\<exists>e \<in> set ?nd. ?s \<in> set (func (snd e)))"
    unfolding c using searchFunc_None [of ?nd ?s] by simp
  have first: "classify E ''always-where-possible'' so d n =
        (Some (complain (messages_expected E (namedColors E ! j)
                 (removeWhitespace (stringify E n))) d
                 (declarationValueIndex E d + sourceIndex n)), True)"
    if "j < length ?nd" "?s \<in> set (func (snd (?nd ! j)))"
      "\<forall>k<j. ?s \<notin> set (func (snd (?nd ! k)))" for j
  proof -
    from that have "searchFunc ?nd ?s = Some (fst (?nd ! j))"
      unfolding searchFunc_Some by blast
    moreover from that(1) have "namedColors E ! j = fst (?nd ! j)"
      by (simp add: namedColors_nth)
    ultimately show ?thesis
      unfolding c by simp
  qed
  have none: "classify E ''always-where-possible'' so d n = (None, True)"
    if "\<forall>e \<in> set ?nd. ?s \<notin> set (func (snd e))"
  proof -
    from that have "searchFunc ?nd ?s = None"
      unfolding searchFunc_None .
    then show ?thesis
      unfolding c by simp
  qed
  from iff first none show ?thesis
    by blast
qed

text \<open>The three spellings of \<open>rgb(255,0,0)\<close> in the example environment.\<close>

lemma rgb_stripped:
  "removeWhitespace ''rgb(255,0,0)'' = ''rgb(255,0,0)''"
  "removeWhitespace ''RGB(255, 0, 0)'' = ''RGB(255,0,0)''"
  "removeWhitespace ''rgb( 255 , 0 , 0 )'' = ''rgb(255,0,0)''"
  by (simp_all add: removeWhitespace_def isWhitespace_def)

lemma rgb_lowered:
  "toLowerCase ''rgb(255,0,0)'' = ''rgb(255,0,0)''"
  "toLowerCase ''RGB(255,0,0)'' = ''rgb(255,0,0)''"
  "toLowerCase ''rgb'' = ''rgb''"
  "toLowerCase ''RGB'' = ''rgb''"
  by code_simp+

lemmas rgb_spellings = rgb_stripped rgb_lowered

lemma example_stringify:
  "stringify exampleEnv rgbPlain = ''rgb(255,0,0)''"
  "stringify exampleEnv rgbUpper = ''RGB(255, 0, 0)''"
  "stringify exampleEnv rgbSpaced = ''rgb( 255 , 0 , 0 )''"
  by (simp_all add: exampleEnv_def rgbPlain_def rgbUpper_def rgbSpaced_def wordNode_def
      divNode_def)

lemma example_rgb_nodes:
  "ntype rgbPlain = ''function''" "ntype rgbUpper = ''function''" "ntype rgbSpaced = ''function''"
  "nvalue rgbPlain = ''rgb''" "nvalue rgbUpper = ''RGB''" "nvalue rgbSpaced = ''rgb''"
  "sourceIndex rgbPlain = 0" "sourceIndex rgbUpper = 0" "sourceIndex rgbSpaced = 0"
  by (simp_all add: rgbPlain_def rgbUpper_def rgbSpaced_def)

lemma example_rgb_gates:
  "isStandardSyntaxFunction exampleEnv rgbPlain"
  "isStandardSyntaxFunction exampleEnv rgbUpper"
  "isStandardSyntaxFunction exampleEnv rgbSpaced"
  "isStandardSyntaxValue exampleEnv ''rgb''"
  "isStandardSyntaxValue exampleEnv ''RGB''"
  "''rgb'' \<in> colorFunctionNames exampleEnv"
  "\<not> optionsMatches exampleEnv None ''ignore'' ''inside-function''"
  by (simp_all add: exampleEnv_def example_rgb_nodes exampleIsStandardSyntaxFunction_def
      exampleIsStandardSyntaxValue_def exampleOptionsMatches_def)

lemma example_rgbPlain:
  "classify exampleEnv ''always-where-possible'' None (colorDecl ''rgb(255,0,0)'') rgbPlain =
     (Some (complain (messages_expected exampleEnv ''red'' ''rgb(255,0,0)'')
              (colorDecl ''rgb(255,0,0)'') 0), True)"
proof -
  have "classify exampleEnv ''always-where-possible'' None (colorDecl ''rgb(255,0,0)'') rgbPlain =
     (map_option
        (\<lambda>c. complain (messages_expected exampleEnv c (removeWhitespace (stringify exampleEnv rgbPlain)))
               (colorDecl ''rgb(255,0,0)'')
               (declarationValueIndex exampleEnv (colorDecl ''rgb(255,0,0)'') + sourceIndex rgbPlain))
        (searchFunc (namedColorData exampleEnv)
           (toLowerCase (removeWhitespace (stringify exampleEnv rgbPlain)))),
      True)"
    by (rule classify_function) (simp_all add: example_rgb_gates example_rgb_nodes rgb_spellings)
  also have "declarationValueIndex exampleEnv (colorDecl ''rgb(255,0,0)'') = 0"
    by (simp add: exampleEnv_def)
  finally show ?thesis
    by (simp add: example_stringify rgb_spellings example_index example_rgb_nodes)
qed

theorem color_function_flagged_iff_function_form_witness:
  "\<not> optionsMatches exampleEnv None ''ignore'' ''inside-function''
   \<and> isStandardSyntaxFunction exampleEnv rgbPlain
   \<and> isStandardSyntaxValue exampleEnv (nvalue rgbPlain)
   \<and> ntype rgbPlain = ''function''
   \<and> toLowerCase (nvalue rgbPlain) \<in> colorFunctionNames exampleEnv
   \<and> toLowerCase (removeWhitespace (stringify exampleEnv rgbPlain))
        \<in> set (func (snd (namedColorData exampleEnv ! 2)))
   \<and> classify exampleEnv ''always-where-possible'' None (colorDecl ''rgb(255,0,0)'') rgbPlain =
       (Some (complain (messages_expected exampleEnv (namedColors exampleEnv ! 2)
                          (removeWhitespace (stringify exampleEnv rgbPlain)))
                (colorDecl ''rgb(255,0,0)'')
                (declarationValueIndex exampleEnv (colorDecl ''rgb(255,0,0)'')
                 + sourceIndex rgbPlain)), True)"
proof -
  have h: "\<not> optionsMatches exampleEnv None ''ignore'' ''inside-function''"
    "isStandardSyntaxFunction exampleEnv rgbPlain"
    "isStandardSyntaxValue exampleEnv (nvalue rgbPlain)"
    "ntype rgbPlain = ''function''"
    "toLowerCase (nvalue rgbPlain) \<in> colorFunctionNames exampleEnv"
    by (simp_all add: example_rgb_gates example_rgb_nodes rgb_spellings)
  have len: "2 < length (namedColorData exampleEnv)"
    by (simp add: example_index)
  have at2: "toLowerCase (removeWhitespace (stringify exampleEnv rgbPlain))
        \<in> set (func (snd (namedColorData exampleEnv ! 2)))"
    by (simp add: example_stringify rgb_spellings example_index)
  have before: "\<forall>k<2. toLowerCase (removeWhitespace (stringify exampleEnv rgbPlain))
        \<notin> set (func (snd (namedColorData exampleEnv ! k)))"
    by (simp add: example_stringify rgb_spellings example_index less_Suc_eq numeral_2_eq_2)
  from color_function_flagged_iff_function_form [OF h, of "colorDecl ''rgb(255,0,0)''"]
    len at2 before
  have "classify exampleEnv ''always-where-possible'' None (colorDecl ''rgb(255,0,0)'') rgbPlain =
       (Some (complain (messages_expected exampleEnv (namedColors exampleEnv ! 2)
                          (removeWhitespace (stringify exampleEnv rgbPlain)))
                (colorDecl ''rgb(255,0,0)'')
                (declarationValueIndex exampleEnv (colorDecl ''rgb(255,0,0)'')
                 + sourceIndex rgbPlain)), True)"
    by blast
  with h at2 show ?thesis
    by simp
qed

text \<open>
  Claim C3 as it is stated fails when the \<open>ignore\<close> option holds \<open>inside-function\<close>: the
  token \<open>rgb(255,0,0)\<close> is a recognised color function and its text is a function form of
  \<open>red\<close>, and it gets no violation.
\<close>

theorem color_function_skipped_inside_function:
  "ntype rgbPlain = ''function''
   \<and> toLowerCase (nvalue rgbPlain) \<in> colorFunctionNames exampleEnv
   \<and> toLowerCase (removeWhitespace (stringify exampleEnv rgbPlain))
        \<in> set (func (snd (namedColorData exampleEnv ! 2)))
   \<and> isStandardSyntaxFunction exampleEnv rgbPlain
   \<and> isStandardSyntaxValue exampleEnv (nvalue rgbPlain)
   \<and> fst (classify exampleEnv ''always-where-possible''
             (Some \<lparr>ignoreProperties = [], ignore = [''inside-function'']\<rparr>)
             (colorDecl ''rgb(255,0,0)'') rgbPlain) = None"
proof -
  have "optionsMatches exampleEnv (Some \<lparr>ignoreProperties = [], ignore = [''inside-function'']\<rparr>)
      ''ignore'' ''inside-function''"
    by (simp add: exampleEnv_def exampleOptionsMatches_def)
  then have "classify exampleEnv ''always-where-possible''
             (Some \<lparr>ignoreProperties = [], ignore = [''inside-function'']\<rparr>)
             (colorDecl ''rgb(255,0,0)'') rgbPlain = (None, False)"
    by (simp add: classify_def example_rgb_nodes)
  then show ?thesis
    by (simp add: example_rgb_gates example_rgb_nodes rgb_spellings example_stringify
        example_index)
qed

text \<open>
  Claim C4, as the code has it. Three function nodes at the same place whose printed texts
  are \<open>rgb(255,0,0)\<close>, \<open>RGB(255, 0, 0)\<close> and \<open>rgb( 255 , 0 , 0 )\<close>, and which the syntax
  classifiers treat alike, get the same decision under \<open>always-where-possible\<close>: none of
  them is reported, or all three are reported with the same suggested name at the same
  index, and the callback returns the same value to the walker. The text the message
  quotes is the node's own text without whitespace, in its own letter case:
  \<open>rgb(255,0,0)\<close> for the first and the third, \<open>RGB(255,0,0)\<close> for the second.
\<close>

theorem rgb_spellings_same_color:
  assumes types: "ntype n1 = ''function''" "ntype n2 = ''function''" "ntype n3 = ''function''"
    and names: "nvalue n1 = ''rgb''" "nvalue n2 = ''RGB''" "nvalue n3 = ''rgb''"
    and texts: "stringify E n1 = ''rgb(255,0,0)''" "stringify E n2 = ''RGB(255, 0, 0)''"
      "stringify E n3 = ''rgb( 255 , 0 , 0 )''"
    and place: "sourceIndex n2 = sourceIndex n1" "sourceIndex n3 = sourceIndex n1"
    and gates: "isStandardSyntaxFunction E n2 = isStandardSyntaxFunction E n1"
      "isStandardSyntaxFunction E n3 = isStandardSyntaxFunction E n1"
      "isStandardSyntaxValue E ''RGB'' = isStandardSyntaxValue E ''rgb''"
    and rgb: "''rgb'' \<in> colorFunctionNames E"
  shows "\<exists>c b.
      classify E ''always-where-possible'' so d n1 =
        (map_option (\<lambda>name. complain (messages_expected E name ''rgb(255,0,0)'') d
                       (declarationValueIndex E d + sourceIndex n1)) c, b)
    \<and> classify E ''always-where-possible'' so d n2 =
        (map_option (\<lambda>name. complain (messages_expected E name ''RGB(255,0,0)'') d
                       (declarationValueIndex E d + sourceIndex n1)) c, b)
    \<and> classify E ''always-where-possible'' so d n3 =
        (map_option (\<lambda>name. complain (messages_expected E name ''rgb(255,0,0)'') d
                       (declarationValueIndex E d + sourceIndex n1)) c, b)"
proof -
  let ?awp = "''always-where-possible''"
  consider (ignored) "optionsMatches E so ''ignore'' ''inside-function''"
    | (odd_function) "\<not> optionsMatches E so ''ignore'' ''inside-function''"
        "\<not> isStandardSyntaxFunction E n1"
    | (odd_value) "\<not> optionsMatches E so ''ignore'' ''inside-function''"
        "isStandardSyntaxFunction E n1" "\<not> isStandardSyntaxValue E ''rgb''"
    | (checked) "\<not> optionsMatches E so ''ignore'' ''inside-function''"
        "isStandardSyntaxFunction E n1" "isStandardSyntaxValue E ''rgb''"
    by blast
  then show ?thesis
  proof cases
    case ignored
    then have "classify E ?awp so d n1 = (None, False)" "classify E ?awp so d n2 = (None, False)"
      "classify E ?awp so d n3 = (None, False)"
      using types by (simp_all add: classify_def)
    then show ?thesis
      by (intro exI [of _ None] exI [of _ False]) simp
  next
    case odd_function
    then have "classify E ?awp so d n1 = (None, False)" "classify E ?awp so d n2 = (None, False)"
      "classify E ?awp so d n3 = (None, False)"
      using gates by (simp_all add: classify_def)
    then show ?thesis
      by (intro exI [of _ None] exI [of _ False]) simp
  next
    case odd_value
    then have "classify E ?awp so d n1 = (None, True)" "classify E ?awp so d n2 = (None, True)"
      "classify E ?awp so d n3 = (None, True)"
      using gates names by (simp_all add: classify_def)
    then show ?thesis
      by (intro exI [of _ None] exI [of _ True]) simp
  next
    case checked
    have "classify E ?awp so d n1 =
        (map_option (\<lambda>name. complain (messages_expected E name ''rgb(255,0,0)'') d
           (declarationValueIndex E d + sourceIndex n1))
           (searchFunc (namedColorData E) ''rgb(255,0,0)''), True)"
      using classify_function [of E so n1 d] checked types names texts rgb
      by (simp add: rgb_spellings)
    moreover have "classify E ?awp so d n2 =
        (map_option (\<lambda>name. complain (messages_expected E name ''RGB(255,0,0)'') d
           (declarationValueIndex E d + sourceIndex n1))
           (searchFunc (namedColorData E) ''rgb(255,0,0)''), True)"
      using classify_function [of E so n2 d] checked types names texts rgb gates place
      by (simp add: rgb_spellings)
    moreover have "classify E ?awp so d n3 =
        (map_option (\<lambda>name. complain (messages_expected E name ''rgb(255,0,0)'') d
           (declarationValueIndex E d + sourceIndex n1))
           (searchFunc (namedColorData E) ''rgb(255,0,0)''), True)"
      using classify_function [of E so n3 d] checked types names texts rgb gates place
      by (simp add: rgb_spellings)
    ultimately show ?thesis
      by (intro exI [of _ "searchFunc (namedColorData E) ''rgb(255,0,0)''"] exI [of _ True])
        simp
  qed
qed

theorem rgb_spellings_same_color_witness:
  "ntype rgbPlain = ''function'' \<and> ntype rgbUpper = ''function'' \<and> ntype rgbSpaced = ''function''
   \<and> nvalue rgbPlain = ''rgb'' \<and> nvalue rgbUpper = ''RGB'' \<and> nvalue rgbSpaced = ''rgb''
   \<and> stringify exampleEnv rgbPlain = ''rgb(255,0,0)''
   \<and> stringify exampleEnv rgbUpper = ''RGB(255, 0, 0)''
   \<and> stringify exampleEnv rgbSpaced = ''rgb( 255 , 0 , 0 )''
   \<and> sourceIndex rgbUpper = sourceIndex rgbPlain \<and> sourceIndex rgbSpaced = sourceIndex rgbPlain
   \<and> isStandardSyntaxFunction exampleEnv rgbUpper = isStandardSyntaxFunction exampleEnv rgbPlain
   \<and> isStandardSyntaxFunction exampleEnv rgbSpaced = isStandardSyntaxFunction exampleEnv rgbPlain
   \<and> isStandardSyntaxValue exampleEnv ''RGB'' = isStandardSyntaxValue exampleEnv ''rgb''
   \<and> ''rgb'' \<in> colorFunctionNames exampleEnv
   \<and> (\<exists>c b.
        classify exampleEnv ''always-where-possible'' None (colorDecl ''x'') rgbPlain =
          (map_option (\<lambda>name. complain (messages_expected exampleEnv name ''rgb(255,0,0)'')
             (colorDecl ''x'')
             (declarationValueIndex exampleEnv (colorDecl ''x'') + sourceIndex rgbPlain)) c, b)
      \<and> classify exampleEnv ''always-where-possible'' None (colorDecl ''x'') rgbUpper =
          (map_option (\<lambda>name. complain (messages_expected exampleEnv name ''RGB(255,0,0)'')
             (colorDecl ''x'')
             (declarationValueIndex exampleEnv (colorDecl ''x'') + sourceIndex rgbPlain)) c, b)
      \<and> classify exampleEnv ''always-where-possible'' None (colorDecl ''x'') rgbSpaced =
          (map_option (\<lambda>name. complain (messages_expected exampleEnv name ''rgb(255,0,0)'')
             (colorDecl ''x'')
             (declarationValueIndex exampleEnv (colorDecl ''x'') + sourceIndex rgbPlain)) c, b))"
proof -
  have place: "sourceIndex rgbUpper = sourceIndex rgbPlain"
    "sourceIndex rgbSpaced = sourceIndex rgbPlain"
    by (simp_all add: example_rgb_nodes)
  have gates: "isStandardSyntaxFunction exampleEnv rgbUpper = isStandardSyntaxFunction exampleEnv rgbPlain"
    "isStandardSyntaxFunction exampleEnv rgbSpaced = isStandardSyntaxFunction exampleEnv rgbPlain"
    "isStandardSyntaxValue exampleEnv ''RGB'' = isStandardSyntaxValue exampleEnv ''rgb''"
    by (simp_all add: example_rgb_gates)
  show ?thesis
    using example_rgb_nodes(1-6) example_stringify place gates example_rgb_gates(6)
      rgb_spellings_same_color [OF example_rgb_nodes(1-6) example_stringify place gates
        example_rgb_gates(6), of None "colorDecl ''x''"]
    by blast
qed

text \<open>The violation of \<open>RGB(255, 0, 0)\<close> in the example environment.\<close>

lemma example_rgbUpper:
  "classify exampleEnv ''always-where-possible'' None (colorDecl ''rgb(255,0,0)'') rgbUpper =
     (Some (complain (messages_expected exampleEnv ''red'' ''RGB(255,0,0)'')
              (colorDecl ''rgb(255,0,0)'') 0), True)"
proof -
  have "classify exampleEnv ''always-where-possible'' None (colorDecl ''rgb(255,0,0)'') rgbUpper =
     (map_option
        (\<lambda>c. complain (messages_expected exampleEnv c (removeWhitespace (stringify exampleEnv rgbUpper)))
               (colorDecl ''rgb(255,0,0)'')
               (declarationValueIndex exampleEnv (colorDecl ''rgb(255,0,0)'') + sourceIndex rgbUpper))
        (searchFunc (namedColorData exampleEnv)
           (toLowerCase (removeWhitespace (stringify exampleEnv rgbUpper)))),
      True)"
    by (rule classify_function) (simp_all add: example_rgb_gates example_rgb_nodes rgb_spellings)
  also have "declarationValueIndex exampleEnv (colorDecl ''rgb(255,0,0)'') = 0"
    by (simp add: exampleEnv_def)
  finally show ?thesis
    by (simp add: example_stringify rgb_spellings example_index example_rgb_nodes)
qed

text \<open>
  Claim C4 as it is stated fails: \<open>rgb(255,0,0)\<close> and \<open>RGB(255, 0, 0)\<close> are both reported
  as \<open>red\<close>, but the two violations are not the same, since the second message quotes
  \<open>RGB(255,0,0)\<close>.
\<close>

theorem rgb_upper_violation_differs:
  "classify exampleEnv ''always-where-possible'' None (colorDecl ''rgb(255,0,0)'') rgbPlain =
     (Some (complain (messages_expected exampleEnv ''red'' ''rgb(255,0,0)'')
              (colorDecl ''rgb(255,0,0)'') 0), True)
   \<and> classify exampleEnv ''always-where-possible'' None (colorDecl ''rgb(255,0,0)'') rgbUpper =
     (Some (complain (messages_expected exampleEnv ''red'' ''RGB(255,0,0)'')
              (colorDecl ''rgb(255,0,0)'') 0), True)
   \<and> stringify exampleEnv rgbPlain = ''rgb(255,0,0)''
   \<and> stringify exampleEnv rgbUpper = ''RGB(255, 0, 0)''
   \<and> classify exampleEnv ''always-where-possible'' None (colorDecl ''rgb(255,0,0)'') rgbPlain
       \<noteq> classify exampleEnv ''always-where-possible'' None (colorDecl ''rgb(255,0,0)'') rgbUpper"
  unfolding example_rgbPlain example_rgbUpper example_stringify
  by (simp add: complain_def messages_expected_def exampleEnv_def)

subsection \<open>The message of a color function\<close>

lemma classify_function_Some:
  assumes "classify E primary so d n = (Some x, b)"
    and "ntype n = ''function''" and "toLowerCase (nvalue n) \<in> colorFunctionNames E"
  shows "\<exists>c. searchFunc (namedColorData E)
                (toLowerCase (removeWhitespace (stringify E n))) = Some c
            \<and> x = complain (messages_expected E c (removeWhitespace (stringify E n))) d
                     (declarationValueIndex E d + sourceIndex n)"
  using assms
  by (auto simp: classify_def Let_def split: if_splits option.splits)

lemma searchFunc_name:
  "searchFunc (namedColorData E) s = Some c \<Longrightarrow> c \<in> set (namedColors E)"
  unfolding searchFunc_Some
  by (metis length_namedColorData namedColors_nth namedColors_def length_map nth_mem)

lemma lowercaseName_lower: "lowercaseName c \<Longrightarrow> toLowerCase c = c"
  by (auto simp: lowercaseName_def toLowerCase_def list_all_iff lowerChar_letter intro!: map_idI)

text \<open>
  Claim C10, as the code has it. When a function token whose lowercased name is a
  recognised color function gets a violation, the message is the \<open>expected\<close> message that
  quotes the printed text of the node with the whitespace removed and the letter case
  kept (neither the printed text itself nor its lowercased form), and that suggests a
  name of the catalog, which is lowercase when the catalog is well-formed.
\<close>

theorem color_function_message_quotes_stripped_text:
  assumes "classify E primary so d n = (Some x, b)"
    and "ntype n = ''function''" and "toLowerCase (nvalue n) \<in> colorFunctionNames E"
  shows "\<exists>c. c \<in> set (namedColors E)
           \<and> x = complain (messages_expected E c (removeWhitespace (stringify E n))) d
                    (declarationValueIndex E d + sourceIndex n)
           \<and> (catalogWellFormed (namedColorDataHex E) \<longrightarrow> toLowerCase c = c)"
proof -
  from classify_function_Some [OF assms] obtain c
    where c: "searchFunc (namedColorData E)
                (toLowerCase (removeWhitespace (stringify E n))) = Some c"
      and x: "x = complain (messages_expected E c (removeWhitespace (stringify E n))) d
                     (declarationValueIndex E d + sourceIndex n)"
    by blast
  from c have name: "c \<in> set (namedColors E)"
    by (rule searchFunc_name)
  have "toLowerCase c = c" if "catalogWellFormed (namedColorDataHex E)"
    using catalog_name [OF that name] by (rule lowercaseName_lower)
  with name x show ?thesis
    by blast
qed

theorem color_function_message_quotes_stripped_text_witness:
  "classify exampleEnv ''always-where-possible'' None (colorDecl ''rgb(255,0,0)'') rgbUpper =
     (Some (complain (messages_expected exampleEnv ''red'' ''RGB(255,0,0)'')
              (colorDecl ''rgb(255,0,0)'') 0), True)
   \<and> ntype rgbUpper = ''function''
   \<and> toLowerCase (nvalue rgbUpper) \<in> colorFunctionNames exampleEnv
   \<and> removeWhitespace (stringify exampleEnv rgbUpper) = ''RGB(255,0,0)''
   \<and> (\<exists>c. c \<in> set (namedColors exampleEnv)
         \<and> complain (messages_expected exampleEnv ''red'' ''RGB(255,0,0)'')
              (colorDecl ''rgb(255,0,0)'') 0
            = complain (messages_expected exampleEnv c
                          (removeWhitespace (stringify exampleEnv rgbUpper)))
                (colorDecl ''rgb(255,0,0)'')
                (declarationValueIndex exampleEnv (colorDecl ''rgb(255,0,0)'')
                 + sourceIndex rgbUpper)
         \<and> (catalogWellFormed (namedColorDataHex exampleEnv) \<longrightarrow> toLowerCase c = c))"
proof -
  have t: "ntype rgbUpper = ''function''"
    and v: "toLowerCase (nvalue rgbUpper) \<in> colorFunctionNames exampleEnv"
    by (simp_all add: example_rgb_nodes rgb_spellings example_rgb_gates)
  have s: "removeWhitespace (stringify exampleEnv rgbUpper) = ''RGB(255,0,0)''"
    by (simp add: example_stringify rgb_spellings)
  show ?thesis
    using example_rgbUpper t v s
      color_function_message_quotes_stripped_text [OF example_rgbUpper t v]
    by simp
qed

text \<open>
  Claim C10 as it is stated fails for a function token whose name is not a color function:
  it falls through to the hex loop, which looks at the name alone. For \<open>#f00(1)\<close> the
  message quotes the name \<open>#f00\<close>, not the text \<open>#f00(1)\<close>.
\<close>

theorem hex_named_function_quotes_its_name:
  "ntype (Node ''function'' ''#f00'' 0 [] [] [wordNode ''1'' 5]) = ''function''
   \<and> removeWhitespace (stringify exampleEnv (Node ''function'' ''#f00'' 0 [] [] [wordNode ''1'' 5]))
       = ''#f00(1)''
   \<and> classify exampleEnv ''always-where-possible'' None (colorDecl ''#f00(1)'')
        (Node ''function'' ''#f00'' 0 [] [] [wordNode ''1'' 5]) =
      (Some (complain (messages_expected exampleEnv ''red'' ''#f00'') (colorDecl ''#f00(1)'') 0),
       True)
   \<and> messages_expected exampleEnv ''red'' ''#f00''
       \<noteq> messages_expected exampleEnv ''red'' ''#f00(1)''"
proof -
  let ?n = "Node ''function'' ''#f00'' 0 [] [] [wordNode ''1'' 5]"
  have s: "removeWhitespace (stringify exampleEnv ?n) = ''#f00(1)''"
    by (simp add: exampleEnv_def wordNode_def removeWhitespace_def isWhitespace_def)
  have l: "toLowerCase ''#f00'' = ''#f00''"
    by (simp add: toLowerCase_def lowerChar_def)
  have env: "\<not> optionsMatches exampleEnv None ''ignore'' ''inside-function''"
    "isStandardSyntaxFunction exampleEnv ?n" "isStandardSyntaxValue exampleEnv ''#f00''"
    "''#f00'' \<notin> colorFunctionNames exampleEnv"
    "declarationValueIndex exampleEnv (colorDecl ''#f00(1)'') = 0"
    by (simp_all add: exampleEnv_def exampleOptionsMatches_def
        exampleIsStandardSyntaxFunction_def exampleIsStandardSyntaxValue_def)
  have c: "classify exampleEnv ''always-where-possible'' None (colorDecl ''#f00(1)'') ?n =
      (Some (complain (messages_expected exampleEnv ''red'' ''#f00'') (colorDecl ''#f00(1)'') 0),
       True)"
    by (simp add: classify_def NODE_TYPES_def l env example_index)
  have m: "messages_expected exampleEnv ''red'' ''#f00''
       \<noteq> messages_expected exampleEnv ''red'' ''#f00(1)''"
    by (simp add: messages_expected_def exampleEnv_def)
  from s c m show ?thesis
    by simp
qed

end
